theory Spec2Isabelle
  imports Complex_Main
begin

section \<open>Values of the analysis notebook\<close>

text \<open>
  The aggregation logic of the repository is the pandas notebook of the ETL part.  Its cells
  are embedded here as functions over lists of rows.  Python \<open>str\<close> values are modelled as
  \<^typ>\<open>string\<close> holding the UTF-8 bytes of the text; equality, \<open>endswith\<close>, \<open>in\<close> and
  \<open>split("_")\<close> agree on code points and on their UTF-8 encoding.  In the tables a null
  cell (pandas \<open>None\<close>/\<open>NaN\<close>/\<open>NaT\<close>) is \<^term>\<open>None\<close>.
\<close>

subsection \<open>Floating-point results\<close>

text \<open>
  A \<open>float64\<close> produced by a true division of integer counts.  Finite values are kept as the
  exact rational quotient (the binary rounding of the quotient is not modelled); the three
  special values that numpy returns where Python's own \<open>int / int\<close> would raise are kept
  apart.
\<close>

datatype npfloat = Fin rat | PosInf | NegInf | NaN

text \<open>
  \<open>a / b\<close> where one operand is a numpy integer (a scalar returned by \<open>Series.sum()\<close>, or an
  integer column): division by zero raises nothing, it yields \<open>nan\<close> for \<open>0 / 0\<close> and a signed
  infinity otherwise.
\<close>

definition np_truediv :: "int \<Rightarrow> int \<Rightarrow> npfloat" where
  "np_truediv a b =
     (if b = 0 then (if a = 0 then NaN else if 0 < a then PosInf else NegInf)
      else Fin (rat_of_int a / rat_of_int b))"

text \<open>Round to the nearest integer, ties to the even neighbour (\<open>numpy.rint\<close>).\<close>

definition rint :: "rat \<Rightarrow> int" where
  "rint x =
     (let f = \<lfloor>x\<rfloor>; d = x - rat_of_int f
      in if d < 1 / 2 then f
         else if 1 / 2 < d then f + 1
         else if even f then f else f + 1)"

text \<open>
  \<open>round(x, n)\<close> on a numpy float and \<open>Series.round(n)\<close>: scale by \<open>10 ** n\<close>, \<open>rint\<close>, scale
  back.  \<open>nan\<close> and the infinities are returned unchanged.
\<close>

fun np_round :: "nat \<Rightarrow> npfloat \<Rightarrow> npfloat" where
  "np_round n (Fin x) = Fin (rat_of_int (rint (x * 10 ^ n)) / 10 ^ n)"
| "np_round n PosInf = PosInf"
| "np_round n NegInf = NegInf"
| "np_round n NaN = NaN"

text \<open>The comparison \<open>x <= y\<close> on floats: every comparison with \<open>nan\<close> is false.\<close>

fun np_le :: "npfloat \<Rightarrow> npfloat \<Rightarrow> bool" where
  "np_le NaN y = False"
| "np_le x NaN = False"
| "np_le NegInf y = True"
| "np_le x PosInf = True"
| "np_le PosInf y = False"
| "np_le x NegInf = False"
| "np_le (Fin x) (Fin y) = (x \<le> y)"

subsection \<open>Text constants\<close>

text \<open>The outcome label of a withdrawn bill, U+CCA0 U+D68C.\<close>

definition withdrawn :: string where
  "withdrawn = [CHR 0xEC, CHR 0xB2, CHR 0xA0, CHR 0xED, CHR 0x9A, CHR 0x8C]"

section \<open>Lifecycle durations and stage conversion\<close>

subsection \<open>Timestamps\<close>

text \<open>A \<open>datetime64[ns]\<close> value: nanoseconds since the epoch; \<open>NaT\<close> is \<^term>\<open>None\<close>.\<close>

type_synonym timestamp = int

definition ns_per_day :: int where
  "ns_per_day = 86400000000000"

text \<open>
  \<open>pd.to_datetime(col, errors="coerce")\<close>.  The date parser belongs to pandas, not to the
  repository, so it is a parameter \<open>parse\<close>; \<open>errors="coerce"\<close> turns every string it rejects
  into \<open>NaT\<close>, and a null stays \<open>NaT\<close>.
\<close>

definition to_datetime :: "(string \<Rightarrow> timestamp option) \<Rightarrow> string option \<Rightarrow> timestamp option" where
  "to_datetime parse c = (case c of None \<Rightarrow> None | Some s \<Rightarrow> parse s)"

text \<open>
  Modelled from the spec: the column types of \<open>bill_details\<close>, whose JSON file is not part
  of the repository.  The row has the columns the cell reads: the outcome label and the seven
  nullable date-time fields.  The date columns hold \<^typ>\<open>string option\<close> as loaded and
  \<^typ>\<open>timestamp option\<close> after the conversion loop.
\<close>

record 'd bill_detail =
  PROC_RESULT :: "string option"
  COMMITTEE_DT :: 'd
  CMT_PRESENT_DT :: 'd
  CMT_PROC_DT :: 'd
  LAW_SUBMIT_DT :: 'd
  LAW_PRESENT_DT :: 'd
  LAW_PROC_DT :: 'd
  PROC_DT :: 'd

text \<open>The loop \<open>for col in date_cols: bill_details[col] = pd.to_datetime(...)\<close> on one row.\<close>

definition convert_dates ::
  "(string \<Rightarrow> timestamp option) \<Rightarrow> string option bill_detail \<Rightarrow> timestamp option bill_detail" where
  "convert_dates parse b =
     \<lparr> PROC_RESULT = PROC_RESULT b,
       COMMITTEE_DT = to_datetime parse (COMMITTEE_DT b),
       CMT_PRESENT_DT = to_datetime parse (CMT_PRESENT_DT b),
       CMT_PROC_DT = to_datetime parse (CMT_PROC_DT b),
       LAW_SUBMIT_DT = to_datetime parse (LAW_SUBMIT_DT b),
       LAW_PRESENT_DT = to_datetime parse (LAW_PRESENT_DT b),
       LAW_PROC_DT = to_datetime parse (LAW_PROC_DT b),
       PROC_DT = to_datetime parse (PROC_DT b) \<rparr>"

subsection \<open>Gap columns\<close>

text \<open>Subtraction of two datetime columns: \<open>NaT\<close> when either side is \<open>NaT\<close>.\<close>

definition dt_minus :: "timestamp option \<Rightarrow> timestamp option \<Rightarrow> int option" where
  "dt_minus a b =
     (case a of None \<Rightarrow> None
      | Some x \<Rightarrow> (case b of None \<Rightarrow> None | Some y \<Rightarrow> Some (x - y)))"

text \<open>\<open>.dt.days\<close>: the whole days of a timedelta, rounded towards minus infinity.\<close>

definition dt_days :: "int option \<Rightarrow> int option" where
  "dt_days d = map_option (\<lambda>n. n div ns_per_day) d"

text \<open>\<open>.fillna(-1).astype(int)\<close>.\<close>

definition fillna_int :: "int option \<Rightarrow> int" where
  "fillna_int d = (case d of None \<Rightarrow> - 1 | Some n \<Rightarrow> n)"

definition gap :: "timestamp option \<Rightarrow> timestamp option \<Rightarrow> int" where
  "gap later earlier = fillna_int (dt_days (dt_minus later earlier))"

record durations =
  CMT_MEET :: int
  CMT_PROC :: int
  LAW_U :: int
  LAW_MEET :: int
  LAW_PROC :: int
  PROC :: int
  TOTAL_DT :: int

text \<open>The seven assignments of gap columns, for one row (\<open>LAW_U\<close> is the column \<open>LAW_\<close>).\<close>

definition gap_columns :: "timestamp option bill_detail \<Rightarrow> durations" where
  "gap_columns b =
     \<lparr> CMT_MEET = gap (CMT_PRESENT_DT b) (COMMITTEE_DT b),
       CMT_PROC = gap (CMT_PROC_DT b) (CMT_PRESENT_DT b),
       LAW_U = gap (LAW_SUBMIT_DT b) (CMT_PROC_DT b),
       LAW_MEET = gap (LAW_PRESENT_DT b) (LAW_SUBMIT_DT b),
       LAW_PROC = gap (LAW_PROC_DT b) (LAW_PRESENT_DT b),
       PROC = gap (PROC_DT b) (LAW_PROC_DT b),
       TOTAL_DT = gap (PROC_DT b) (COMMITTEE_DT b) \<rparr>"

text \<open>\<open>bill_details[bill_details["PROC_RESULT"] != withdrawn]\<close>; a null result is kept.\<close>

definition not_withdrawn :: "'d bill_detail \<Rightarrow> bool" where
  "not_withdrawn b = (PROC_RESULT b \<noteq> Some withdrawn)"

text \<open>The table of the cell after the gap columns have been added.\<close>

definition duration_table ::
  "(string \<Rightarrow> timestamp option) \<Rightarrow> string option bill_detail list \<Rightarrow> durations list" where
  "duration_table parse bill_details =
     map gap_columns (filter not_withdrawn (map (convert_dates parse) bill_details))"

subsection \<open>Conversion rates\<close>

text \<open>\<open>(col != -1).sum()\<close>.\<close>

definition reached :: "(durations \<Rightarrow> int) \<Rightarrow> durations list \<Rightarrow> nat" where
  "reached col ds = length (filter (\<lambda>d. col d \<noteq> - 1) ds)"

text \<open>The five printed rates, named after the counters they are computed from (\<open>tot\<close> is the
  variable \<open>total\<close>).\<close>

record conversion =
  cmt_meet_rate :: npfloat
  cmt_proc_rate :: npfloat
  law_meet_rate :: npfloat
  law_proc_rate :: npfloat
  proc_rate :: npfloat

definition rate :: "nat \<Rightarrow> nat \<Rightarrow> npfloat" where
  "rate n tot = np_round 3 (np_truediv (int n) (int tot))"

definition conversion_rates :: "durations list \<Rightarrow> conversion" where
  "conversion_rates ds =
     (let tot = length ds;
          cmt_meet = reached CMT_MEET ds;
          cmt_proc = reached CMT_PROC ds;
          law_meet = reached LAW_MEET ds;
          law_proc = reached LAW_PROC ds;
          proc = reached PROC ds
      in \<lparr> cmt_meet_rate = rate cmt_meet tot,
           cmt_proc_rate = rate cmt_proc tot,
           law_meet_rate = rate law_meet tot,
           law_proc_rate = rate law_proc tot,
           proc_rate = rate proc tot \<rparr>)"

text \<open>The whole cell: from the loaded rows to the printed rates.\<close>

definition stage_conversion ::
  "(string \<Rightarrow> timestamp option) \<Rightarrow> string option bill_detail list \<Rightarrow> conversion" where
  "stage_conversion parse bill_details = conversion_rates (duration_table parse bill_details)"

subsection \<open>Vocabulary of the lifecycle properties\<close>

text \<open>The seven lifecycle timestamps of a row, in milestone order.\<close>

definition dates :: "'d bill_detail \<Rightarrow> 'd list" where
  "dates b =
     [COMMITTEE_DT b, CMT_PRESENT_DT b, CMT_PROC_DT b, LAW_SUBMIT_DT b,
      LAW_PRESENT_DT b, LAW_PROC_DT b, PROC_DT b]"

text \<open>The timestamps that are present, in the order of their columns.\<close>

fun present :: "'a option list \<Rightarrow> 'a list" where
  "present [] = []"
| "present (None # xs) = present xs"
| "present (Some t # xs) = t # present xs"

text \<open>Timestamps, when present, are non-decreasing in lifecycle order.\<close>

definition in_order :: "timestamp option list \<Rightarrow> bool" where
  "in_order xs = sorted (present xs)"

text \<open>A milestone timestamp is present only if all prior ones are.\<close>

fun prefix_present :: "'a option list \<Rightarrow> bool" where
  "prefix_present [] = True"
| "prefix_present (None # xs) = list_all (\<lambda>x. x = None) xs"
| "prefix_present (Some t # xs) = prefix_present xs"

text \<open>
  The six milestone gaps and the total span as the design describes them: each duration
  column with its later and its earlier endpoint.
\<close>

definition gap_endpoints ::
  "((durations \<Rightarrow> int) \<times> ('d bill_detail \<Rightarrow> 'd) \<times> ('d bill_detail \<Rightarrow> 'd)) list" where
  "gap_endpoints =
     [(CMT_MEET, CMT_PRESENT_DT, COMMITTEE_DT),
      (CMT_PROC, CMT_PROC_DT, CMT_PRESENT_DT),
      (LAW_U, LAW_SUBMIT_DT, CMT_PROC_DT),
      (LAW_MEET, LAW_PRESENT_DT, LAW_SUBMIT_DT),
      (LAW_PROC, LAW_PROC_DT, LAW_PRESENT_DT),
      (PROC, PROC_DT, LAW_PROC_DT),
      (TOTAL_DT, PROC_DT, COMMITTEE_DT)]"

subsection \<open>A date parser for concrete inputs\<close>

text \<open>
  The theorems below hold for every parser.  Concrete populations are evaluated with this
  one, which reads the calendar dates written \<open>YYYY-MM-DD\<close> as pandas does (midnight of
  that day) and rejects every other string.
\<close>

definition digit :: "char \<Rightarrow> nat option" where
  "digit c = (let n = (of_char c :: nat) in if 48 \<le> n \<and> n \<le> 57 then Some (n - 48) else None)"

fun digits :: "nat \<Rightarrow> string \<Rightarrow> nat option" where
  "digits acc [] = Some acc"
| "digits acc (c # cs) =
     (case digit c of None \<Rightarrow> None | Some d \<Rightarrow> digits (10 * acc + d) cs)"

definition is_leap :: "nat \<Rightarrow> bool" where
  "is_leap y = (y mod 4 = 0 \<and> (y mod 100 \<noteq> 0 \<or> y mod 400 = 0))"

definition days_in_month :: "nat \<Rightarrow> nat \<Rightarrow> nat" where
  "days_in_month y m =
     (if m = 2 then (if is_leap y then 29 else 28)
      else if m = 4 \<or> m = 6 \<or> m = 9 \<or> m = 11 then 30 else 31)"

text \<open>Days from 1970-01-01 to the given day of the proleptic Gregorian calendar.\<close>

definition days_from_civil :: "int \<Rightarrow> int \<Rightarrow> int \<Rightarrow> int" where
  "days_from_civil y m d =
     (let y' = (if m \<le> 2 then y - 1 else y);
          era = y' div 400;
          yoe = y' - era * 400;
          doy = (153 * (if 2 < m then m - 3 else m + 9) + 2) div 5 + d - 1;
          doe = yoe * 365 + yoe div 4 - yoe div 100 + doy
      in era * 146097 + doe - 719468)"

definition parse_iso_date :: "string \<Rightarrow> timestamp option" where
  "parse_iso_date s =
     (if length s = 10 \<and> s ! 4 = CHR ''-'' \<and> s ! 7 = CHR ''-'' then
        (case (digits 0 (take 4 s), digits 0 (take 2 (drop 5 s)), digits 0 (drop 8 s)) of
           (Some y, Some m, Some d) \<Rightarrow>
             if 1 \<le> m \<and> m \<le> 12 \<and> 1 \<le> d \<and> d \<le> days_in_month y m
             then Some (days_from_civil (int y) (int m) (int d) * ns_per_day)
             else None
         | _ \<Rightarrow> None)
      else None)"

subsection \<open>Concrete rows\<close>

text \<open>The outcome label of a bill passed as proposed, U+C6D0 U+C548 U+AC00 U+ACB0.\<close>

definition passed_original :: string where
  "passed_original =
     [CHR 0xEC, CHR 0x9B, CHR 0x90, CHR 0xEC, CHR 0x95, CHR 0x88,
      CHR 0xEA, CHR 0xB0, CHR 0x80, CHR 0xEA, CHR 0xB2, CHR 0xB0]"

text \<open>A bill with all seven timestamps, ten days from referral to final disposition.\<close>

definition bill_full :: "string option bill_detail" where
  "bill_full =
     \<lparr> PROC_RESULT = Some passed_original,
       COMMITTEE_DT = Some ''2024-06-01'',
       CMT_PRESENT_DT = Some ''2024-06-03'',
       CMT_PROC_DT = Some ''2024-06-05'',
       LAW_SUBMIT_DT = Some ''2024-06-06'',
       LAW_PRESENT_DT = Some ''2024-06-08'',
       LAW_PROC_DT = Some ''2024-06-10'',
       PROC_DT = Some ''2024-06-11'' \<rparr>"

text \<open>A bill stalled at committee: only the referral date is present.\<close>

definition bill_stalled :: "string option bill_detail" where
  "bill_stalled =
     \<lparr> PROC_RESULT = None,
       COMMITTEE_DT = Some ''2024-06-01'',
       CMT_PRESENT_DT = None,
       CMT_PROC_DT = None,
       LAW_SUBMIT_DT = None,
       LAW_PRESENT_DT = None,
       LAW_PROC_DT = None,
       PROC_DT = None \<rparr>"

text \<open>A withdrawn bill.\<close>

definition bill_withdrawn :: "string option bill_detail" where
  "bill_withdrawn =
     \<lparr> PROC_RESULT = Some withdrawn,
       COMMITTEE_DT = Some ''2024-06-01'',
       CMT_PRESENT_DT = None,
       CMT_PROC_DT = None,
       LAW_SUBMIT_DT = None,
       LAW_PRESENT_DT = None,
       LAW_PROC_DT = None,
       PROC_DT = None \<rparr>"

text \<open>
  A bill with all seven timestamps whose committee presentation is dated the day before its
  committee referral.
\<close>

definition bill_presented_early :: "string option bill_detail" where
  "bill_presented_early =
     \<lparr> PROC_RESULT = Some passed_original,
       COMMITTEE_DT = Some ''2024-06-03'',
       CMT_PRESENT_DT = Some ''2024-06-02'',
       CMT_PROC_DT = Some ''2024-06-05'',
       LAW_SUBMIT_DT = Some ''2024-06-06'',
       LAW_PRESENT_DT = Some ''2024-06-08'',
       LAW_PROC_DT = Some ''2024-06-10'',
       PROC_DT = Some ''2024-06-11'' \<rparr>"

section \<open>Committee, party and co-sponsorship tables\<close>

subsection \<open>Input tables\<close>

text \<open>
  Modelled from the spec: the column types of the loaded tables.  The JSON files the
  notebook reads are not part of the repository; the interface section of the design gives
  every identifier, name, status and party column as a string and \<open>COMMITTEE_NAME\<close> as a
  nullable string.
\<close>

record bill_key =
  BILL_ID :: string

record bill = bill_key +
  BILL_NAME :: string
  COMMITTEE_NAME :: "string option"
  STATUS :: string

record proposer = bill_key +
  PROPOSER_ID :: string
  PROPOSER_TYPE :: string

record member =
  MONA_CD :: string
  POLY_NM :: string

subsection \<open>Labels\<close>

text \<open>Passed with amendment, U+C218 U+C815 U+AC00 U+ACB0.\<close>

definition passed_amended :: string where
  "passed_amended =
     [CHR 0xEC, CHR 0x88, CHR 0x98, CHR 0xEC, CHR 0xA0, CHR 0x95,
      CHR 0xEA, CHR 0xB0, CHR 0x80, CHR 0xEA, CHR 0xB2, CHR 0xB0]"

text \<open>Discarded, reflected in an amendment, U+C218 U+C815 U+C548 U+BC18 U+C601 U+D3D0 U+AE30.\<close>

definition amendment_reflected :: string where
  "amendment_reflected =
     [CHR 0xEC, CHR 0x88, CHR 0x98, CHR 0xEC, CHR 0xA0, CHR 0x95, CHR 0xEC, CHR 0x95, CHR 0x88,
      CHR 0xEB, CHR 0xB0, CHR 0x98, CHR 0xEC, CHR 0x98, CHR 0x81,
      CHR 0xED, CHR 0x8F, CHR 0x90, CHR 0xEA, CHR 0xB8, CHR 0xB0]"

text \<open>Discarded, reflected in an alternative, U+B300 U+C548 U+BC18 U+C601 U+D3D0 U+AE30.\<close>

definition alternative_reflected :: string where
  "alternative_reflected =
     [CHR 0xEB, CHR 0x8C, CHR 0x80, CHR 0xEC, CHR 0x95, CHR 0x88,
      CHR 0xEB, CHR 0xB0, CHR 0x98, CHR 0xEC, CHR 0x98, CHR 0x81,
      CHR 0xED, CHR 0x8F, CHR 0x90, CHR 0xEA, CHR 0xB8, CHR 0xB0]"

text \<open>The proposer type of a lead sponsor, U+C758 U+C6D0 U+B300 U+D45C.\<close>

definition lead_sponsor :: string where
  "lead_sponsor =
     [CHR 0xEC, CHR 0x9D, CHR 0x98, CHR 0xEC, CHR 0x9B, CHR 0x90,
      CHR 0xEB, CHR 0x8C, CHR 0x80, CHR 0xED, CHR 0x91, CHR 0x9C]"

subsection \<open>Grouping\<close>

text \<open>
  The keys of \<open>groupby\<close>: the distinct values of the key column, rows with a null key
  dropped.  Tables are lists of rows; the order of the rows of a grouped or sorted table
  (\<open>sort_values\<close>) is not modelled, the keys are listed in order of first occurrence.
\<close>

definition group_keys :: "('r \<Rightarrow> 'k option) \<Rightarrow> 'r list \<Rightarrow> 'k list" where
  "group_keys key rows = remdups (List.map_filter key rows)"

definition group_rows :: "('r \<Rightarrow> 'k option) \<Rightarrow> 'k \<Rightarrow> 'r list \<Rightarrow> 'r list" where
  "group_rows key k rows = filter (\<lambda>r. key r = Some k) rows"

subsection \<open>Committee statistics\<close>

record committee_stat =
  COMMITTEE_NAME_s :: string
  BILL_COUNT :: nat
  PASS_COUNT :: nat
  NEW_BILL_COUNT :: nat
  PASS_RATE :: npfloat
  PROCESSED_RATE :: npfloat

text \<open>\<open>STATUS.isin([...]).sum()\<close> over the rows of a group.\<close>

definition status_count :: "string list \<Rightarrow> bill list \<Rightarrow> nat" where
  "status_count labels g = length (filter (\<lambda>b. STATUS b \<in> set labels) g)"

text \<open>
  The three named aggregations of one group and the two rate columns computed from them.
  \<open>BILL_COUNT\<close> counts the non-null \<open>BILL_ID\<close> values of the group, which are all of them.
\<close>

definition group_stat :: "string \<Rightarrow> bill list \<Rightarrow> committee_stat" where
  "group_stat k g =
     (let bill_count = length g;
          pass_count = status_count [passed_original, passed_amended] g;
          new_bill_count =
            status_count
              [passed_original, passed_amended, amendment_reflected, alternative_reflected] g
      in \<lparr> COMMITTEE_NAME_s = k,
           BILL_COUNT = bill_count,
           PASS_COUNT = pass_count,
           NEW_BILL_COUNT = new_bill_count,
           PASS_RATE = np_round 2 (np_truediv (int pass_count) (int bill_count)),
           PROCESSED_RATE = np_round 2 (np_truediv (int new_bill_count) (int bill_count)) \<rparr>)"

text \<open>\<open>bills.groupby(key).agg(...)\<close> with the rate columns, for any key column.\<close>

definition groupby_stats :: "(bill \<Rightarrow> string option) \<Rightarrow> bill list \<Rightarrow> committee_stat list" where
  "groupby_stats key bills =
     map (\<lambda>k. group_stat k (group_rows key k bills)) (group_keys key bills)"

definition committe_stats :: "bill list \<Rightarrow> committee_stat list" where
  "committe_stats bills = groupby_stats COMMITTEE_NAME bills"

subsection \<open>Co-sponsorship\<close>

text \<open>
  \<open>proposers.merge(members[["MONA_CD", "POLY_NM"]], left_on="PROPOSER_ID",
  right_on="MONA_CD", how="inner")\<close>: one row for every pair of a proposer row and a member
  row with the same identifier, in the order of the proposer rows.
\<close>

definition merge_members :: "proposer list \<Rightarrow> member list \<Rightarrow> (proposer \<times> member) list" where
  "merge_members proposers members =
     concat (map (\<lambda>p. map (\<lambda>m. (p, m)) (filter (\<lambda>m. PROPOSER_ID p = MONA_CD m) members))
       proposers)"

text \<open>\<open>dict(x.value_counts())\<close>: each distinct value with the number of its occurrences.\<close>

definition value_counts :: "string list \<Rightarrow> (string \<times> nat) list" where
  "value_counts xs = map (\<lambda>k. (k, count_list xs k)) (remdups xs)"

text \<open>\<open>sep.join(xs)\<close>.\<close>

fun join :: "string \<Rightarrow> string list \<Rightarrow> string" where
  "join sep [] = []"
| "join sep [x] = x"
| "join sep (x # y # ys) = x @ sep @ join sep (y # ys)"

record bp_row = bill_key +
  PROPOSER_POLY_NM :: "(string \<times> nat) list"
  PROPOSER_IDS :: string

text \<open>
  The grouped table \<open>bp\<close>.  Of the two aggregations written for \<open>PROPOSER_ID\<close> in the dict
  literal the second replaces the first.
\<close>

definition bp_grouped :: "proposer list \<Rightarrow> member list \<Rightarrow> bp_row list" where
  "bp_grouped proposers members =
     (let merged = merge_members proposers members
      in map (\<lambda>k. let g = filter (\<lambda>r. BILL_ID (fst r) = k) merged
                  in \<lparr> BILL_ID = k,
                       PROPOSER_POLY_NM = value_counts (map (\<lambda>r. POLY_NM (snd r)) g),
                       PROPOSER_IDS = join '', '' (map (\<lambda>r. PROPOSER_ID (fst r)) g) \<rparr>)
           (remdups (map (\<lambda>r. BILL_ID (fst r)) merged)))"

text \<open>\<open>bp = bp[bp['PROPOSER_POLY_NM'].apply(lambda x: len(x) > 1)]\<close>.\<close>

definition bp :: "proposer list \<Rightarrow> member list \<Rightarrow> bp_row list" where
  "bp proposers members =
     filter (\<lambda>r. 1 < length (PROPOSER_POLY_NM r)) (bp_grouped proposers members)"

text \<open>\<open>ana = bills[bills['BILL_ID'].isin(bp['BILL_ID'])]\<close>.\<close>

definition ana :: "bill list \<Rightarrow> proposer list \<Rightarrow> member list \<Rightarrow> bill list" where
  "ana bills proposers members =
     filter (\<lambda>b. BILL_ID b \<in> set (map BILL_ID (bp proposers members))) bills"

text \<open>
  The design's words for the classification: the distinct party labels among the proposers
  of a bill, after the inner join of proposers to members on the member identifier.
\<close>

definition spec_party_labels :: "proposer list \<Rightarrow> member list \<Rightarrow> string \<Rightarrow> string set" where
  "spec_party_labels proposers members bid =
     {POLY_NM m | p m. p \<in> set proposers \<and> m \<in> set members \<and>
                       PROPOSER_ID p = MONA_CD m \<and> BILL_ID p = bid}"

definition spec_cross_party :: "proposer list \<Rightarrow> member list \<Rightarrow> string \<Rightarrow> bool" where
  "spec_cross_party proposers members bid = (1 < card (spec_party_labels proposers members bid))"

subsection \<open>Per-capita productivity of a party\<close>

record headcount =
  POLY_NM_r :: string
  MEMBER_COUNT :: nat
  MEMBER_RATIO :: npfloat

text \<open>
  The table \<open>member_ratio\<close>: the members of each party counted by \<open>MONA_CD\<close>, and the share
  of the party among all counted members, rounded to two decimals.
\<close>

definition member_counts :: "member list \<Rightarrow> (string \<times> nat) list" where
  "member_counts members =
     map (\<lambda>k. (k, length (filter (\<lambda>m. POLY_NM m = k) members))) (remdups (map POLY_NM members))"

definition member_ratio :: "member list \<Rightarrow> headcount list" where
  "member_ratio members =
     (let counts = member_counts members;
          s = sum_list (map snd counts)
      in map (\<lambda>(k, n). \<lparr> POLY_NM_r = k, MEMBER_COUNT = n,
                          MEMBER_RATIO = np_round 2 (np_truediv (int n) (int s)) \<rparr>) counts)"

text \<open>
  The rows of \<open>bill_props\<close> and \<open>lead_props\<close>: a proposer row with the member row and the
  bill row joined to it.
\<close>

type_synonym prop_row = "proposer \<times> member \<times> bill"

definition bill_props :: "proposer list \<Rightarrow> member list \<Rightarrow> bill list \<Rightarrow> prop_row list" where
  "bill_props proposers members bills =
     concat (map (\<lambda>(p, m). map (\<lambda>b. (p, m, b)) (filter (\<lambda>b. BILL_ID p = BILL_ID b) bills))
       (merge_members proposers members))"

definition lead_props :: "prop_row list \<Rightarrow> prop_row list" where
  "lead_props rows = filter (\<lambda>(p, m, b). PROPOSER_TYPE p = lead_sponsor) rows"

record party_row =
  POLY_NM_d :: string
  BILL_COUNT_d :: nat
  MEMBER_COUNT_d :: "nat option"
  RATIO :: npfloat

text \<open>\<open>lead_props.groupby(["POLY_NM"]).count()["BILL_ID"]\<close>, renamed to \<open>BILL_COUNT\<close>.\<close>

definition bill_counts :: "prop_row list \<Rightarrow> (string \<times> nat) list" where
  "bill_counts rows =
     map (\<lambda>k. (k, length (filter (\<lambda>(p, m, b). POLY_NM m = k) rows)))
       (remdups (map (\<lambda>(p, m, b). POLY_NM m) rows))"

text \<open>
  \<open>data.merge(member_ratio[["POLY_NM", "MEMBER_COUNT"]], on="POLY_NM", how="left")\<close>: every
  row of \<open>data\<close> with each matching head count, or once with a missing \<open>MEMBER_COUNT\<close> when
  nothing matches.
\<close>

definition merge_left :: "(string \<times> nat) list \<Rightarrow> headcount list \<Rightarrow> (string \<times> nat \<times> nat option) list" where
  "merge_left data hs =
     concat (map (\<lambda>(k, n).
        (case filter (\<lambda>h. POLY_NM_r h = k) hs of
           [] \<Rightarrow> [(k, n, None)]
         | ms \<Rightarrow> map (\<lambda>h. (k, n, Some (MEMBER_COUNT h))) ms)) data)"

text \<open>
  \<open>data["BILL_COUNT"] / data["MEMBER_COUNT"]\<close>, element by element: a missing denominator
  gives a missing quotient.
\<close>

definition column_div :: "nat \<Rightarrow> nat option \<Rightarrow> npfloat" where
  "column_div n c = (case c of None \<Rightarrow> NaN | Some d \<Rightarrow> np_truediv (int n) (int d))"

definition party_ratio :: "prop_row list \<Rightarrow> headcount list \<Rightarrow> party_row list" where
  "party_ratio lead hs =
     map (\<lambda>(k, n, c). \<lparr> POLY_NM_d = k, BILL_COUNT_d = n, MEMBER_COUNT_d = c,
                         RATIO = column_div n c \<rparr>)
       (merge_left (bill_counts lead) hs)"

subsection \<open>Concrete tables\<close>

text \<open>
  Three bills of one committee, one passed, one reflected in an alternative and one
  withdrawn, and a bill without a committee.
\<close>

definition bills_example :: "bill list" where
  "bills_example =
     [\<lparr> BILL_ID = ''B1'', BILL_NAME = ''N1'', COMMITTEE_NAME = Some ''C'', STATUS = passed_original \<rparr>,
      \<lparr> BILL_ID = ''B2'', BILL_NAME = ''N2'', COMMITTEE_NAME = Some ''C'',
        STATUS = alternative_reflected \<rparr>,
      \<lparr> BILL_ID = ''B3'', BILL_NAME = ''N3'', COMMITTEE_NAME = Some ''C'', STATUS = withdrawn \<rparr>,
      \<lparr> BILL_ID = ''B4'', BILL_NAME = ''N4'', COMMITTEE_NAME = None, STATUS = passed_amended \<rparr>]"

text \<open>
  Proposers and members for the bills above: \<open>B1\<close> has proposers of two parties, \<open>B2\<close> has
  one proposer with a member record and one without.
\<close>

definition proposers_example :: "proposer list" where
  "proposers_example =
     [\<lparr> BILL_ID = ''B1'', PROPOSER_ID = ''M1'', PROPOSER_TYPE = lead_sponsor \<rparr>,
      \<lparr> BILL_ID = ''B1'', PROPOSER_ID = ''M2'', PROPOSER_TYPE = ''co'' \<rparr>,
      \<lparr> BILL_ID = ''B2'', PROPOSER_ID = ''M1'', PROPOSER_TYPE = lead_sponsor \<rparr>,
      \<lparr> BILL_ID = ''B2'', PROPOSER_ID = ''M9'', PROPOSER_TYPE = ''co'' \<rparr>]"

definition members_example :: "member list" where
  "members_example =
     [\<lparr> MONA_CD = ''M1'', POLY_NM = ''P'' \<rparr>,
      \<lparr> MONA_CD = ''M2'', POLY_NM = ''Q'' \<rparr>]"

text \<open>A party \<open>P\<close> of ten members.\<close>

definition ten_members :: "member list" where
  "ten_members =
     map (\<lambda>i. \<lparr> MONA_CD = i, POLY_NM = ''P'' \<rparr>)
       [''M0'', ''M1'', ''M2'', ''M3'', ''M4'', ''M5'', ''M6'', ''M7'', ''M8'', ''M9'']"

text \<open>
  Seven bills lead-sponsored by the member \<open>M1\<close> of \<open>P\<close>, and one by a proposer whose party
  \<open>Q\<close> has no member in the table.
\<close>

definition lead_row :: "string \<Rightarrow> string \<Rightarrow> string \<Rightarrow> prop_row" where
  "lead_row bid mid party =
     (\<lparr> BILL_ID = bid, PROPOSER_ID = mid, PROPOSER_TYPE = lead_sponsor \<rparr>,
      \<lparr> MONA_CD = mid, POLY_NM = party \<rparr>,
      \<lparr> BILL_ID = bid, BILL_NAME = ''N'', COMMITTEE_NAME = Some ''C'', STATUS = passed_original \<rparr>)"

definition lead_example :: "prop_row list" where
  "lead_example =
     map (\<lambda>i. lead_row i ''M1'' ''P'') [''B1'', ''B2'', ''B3'', ''B4'', ''B5'', ''B6'', ''B7'']
     @ [lead_row ''B8'' ''X1'' ''Q'']"

section \<open>Validation of the extracted bill documents\<close>

subsection \<open>Strings\<close>

text \<open>\<open>s.split("_")[0]\<close>: the part of \<open>s\<close> before its first underscore, all of \<open>s\<close> without one.\<close>

definition split_first :: "string \<Rightarrow> string" where
  "split_first s = takeWhile (\<lambda>c. c \<noteq> CHR ''_'') s"

text \<open>\<open>s.endswith(suffix)\<close>.\<close>

definition endswith :: "string \<Rightarrow> string \<Rightarrow> bool" where
  "endswith s suffix =
     (length suffix \<le> length s \<and> drop (length s - length suffix) s = suffix)"

text \<open>\<open>sub in s\<close>: \<open>sub\<close> occurs in \<open>s\<close> as a contiguous run.\<close>

fun contains :: "string \<Rightarrow> string \<Rightarrow> bool" where
  "contains sub [] = (sub = [])"
| "contains sub (c # cs) = (take (length sub) (c # cs) = sub \<or> contains sub cs)"

text \<open>The marker of an alternative bill in a title: U+B300 U+C548 in parentheses.\<close>

definition alt_marker :: string where
  "alt_marker =
     [CHR ''('', CHR 0xEB, CHR 0x8C, CHR 0x80, CHR 0xEC, CHR 0x95, CHR 0x88, CHR '')'']"

subsection \<open>Documents and errors\<close>

text \<open>
  A value as \<open>json.load\<close> returns it: \<open>None\<close>, a \<open>bool\<close>, an \<open>int\<close>, a \<open>float\<close>, a
  \<open>str\<close>, a \<open>list\<close> or a \<open>dict\<close>.
\<close>

datatype json =
  JNull
| JBool bool
| JInt int
| JFloat npfloat
| JStr string
| JList "json list"
| JObj "(string \<times> json) list"

text \<open>
  The truth value Python gives to a loaded value in \<open>if v:\<close>: \<open>None\<close>, \<open>False\<close>, a zero and an
  empty string, list or dict are false, everything else is true.
\<close>

fun truthy :: "json \<Rightarrow> bool" where
  "truthy JNull = False"
| "truthy (JBool b) = b"
| "truthy (JInt n) = (n \<noteq> 0)"
| "truthy (JFloat x) = (x \<noteq> Fin 0)"
| "truthy (JStr s) = (s \<noteq> [])"
| "truthy (JList xs) = (xs \<noteq> [])"
| "truthy (JObj kvs) = (kvs \<noteq> [])"

text \<open>
  The object loaded from one JSON file, with the four keys the loop reads.  A key that the
  object lacks is \<^term>\<open>None\<close>; a key that is there has its value, which may be
  \<^term>\<open>JNull\<close>.
\<close>

record document =
  title :: "json option"
  bill_number :: "json option"
  is_alternative :: "json option"
  alternative_bill_numbers :: "json option"

text \<open>
  The exceptions the loop body can end with: the three \<open>ValueError\<close>s it raises, each carrying
  the file name, the \<open>KeyError\<close> of a subscript on a missing key, the \<open>AttributeError\<close> of
  \<open>split\<close> on a title that is not a string, and the \<open>TypeError\<close> of \<open>endswith\<close> on a number
  that is not a string.  The loop appends the message of the exception to \<open>error\<close>.
\<close>

datatype error =
  MissingFields string
| NumberMismatch string
| NotMarkedAlternative string
| KeyError string
| AttributeError
| TypeError

subsection \<open>The loop\<close>

text \<open>
  The body of the \<open>try\<close> for one file: the exception it raises, or the entry it stores in
  \<open>alter2\<close> (none when the flag is not true).  The flag is tested as \<open>if data["is_alternative"]:\<close>,
  by its truth value; the value of \<open>alternative_bill_numbers\<close> is stored as it is.
\<close>

definition check :: "string \<Rightarrow> document \<Rightarrow> error + (string \<times> json) option" where
  "check fname data =
     (case title data of
        None \<Rightarrow> Inl (KeyError ''title'')
      | Some (JStr t) \<Rightarrow>
          let bill_num = split_first t in
          if bill_number data = Some (JStr []) \<or> title data = Some (JStr [])
          then Inl (MissingFields fname)
          else
            (case bill_number data of
               None \<Rightarrow> Inl (KeyError ''bill_number'')
             | Some (JStr n) \<Rightarrow>
                 if \<not> endswith bill_num n then Inl (NumberMismatch fname)
                 else
                   (case is_alternative data of
                      None \<Rightarrow> Inl (KeyError ''is_alternative'')
                    | Some flag \<Rightarrow>
                        if truthy flag then
                          (case alternative_bill_numbers data of
                             None \<Rightarrow> Inl (KeyError ''alternative_bill_numbers'')
                           | Some a \<Rightarrow> Inr (Some (bill_num, a)))
                        else if contains alt_marker t then Inl (NotMarkedAlternative fname)
                        else Inr None)
             | Some _ \<Rightarrow> Inl TypeError)
      | Some _ \<Rightarrow> Inl AttributeError)"

text \<open>The state of the loop: the dict \<open>alter2\<close> and the list \<open>error\<close>.\<close>

type_synonym validation = "(string \<rightharpoonup> json) \<times> error list"

text \<open>One iteration: files whose name does not end in \<open>.json\<close> are skipped.\<close>

definition step :: "string \<times> document \<Rightarrow> validation \<Rightarrow> validation" where
  "step f st =
     (if endswith (fst f) ''.json'' then
        (case check (fst f) (snd f) of
           Inl e \<Rightarrow> (fst st, snd st @ [e])
         | Inr None \<Rightarrow> st
         | Inr (Some (k, v)) \<Rightarrow> ((fst st)(k \<mapsto> v), snd st))
      else st)"

fun validate_from :: "validation \<Rightarrow> (string \<times> document) list \<Rightarrow> validation" where
  "validate_from st [] = st"
| "validate_from st (f # fs) = validate_from (step f st) fs"

text \<open>The cell: both start empty.\<close>

definition validate_all :: "(string \<times> document) list \<Rightarrow> validation" where
  "validate_all files = validate_from (Map.empty, []) files"

text \<open>
  The records the design wants reported: a required field is empty, the prefix of the title
  does not end with the declared number, or the title carries the marker while the flag is
  false (\<open>False\<close>, or any other value that is not true).
\<close>

definition reportable :: "document \<Rightarrow> bool" where
  "reportable data =
     (title data = Some (JStr []) \<or> bill_number data = Some (JStr []) \<or>
      (\<exists>t n. title data = Some (JStr t) \<and> bill_number data = Some (JStr n) \<and>
             \<not> endswith (split_first t) n) \<or>
      (\<exists>t flag. title data = Some (JStr t) \<and> is_alternative data = Some flag \<and>
                \<not> truthy flag \<and> contains alt_marker t))"

subsection \<open>Concrete documents\<close>

text \<open>An alternative bill whose title lacks the marker, and a bill that is valid.\<close>

definition doc_unmarked_alternative :: document where
  "doc_unmarked_alternative =
     \<lparr> title = Some (JStr ''2200123_act''), bill_number = Some (JStr ''2200123''),
       is_alternative = Some (JBool True),
       alternative_bill_numbers = Some (JList [JStr ''2200001'', JStr ''2200002'']) \<rparr>"

definition doc_plain :: document where
  "doc_plain =
     \<lparr> title = Some (JStr ''2200456_act''), bill_number = Some (JStr ''2200456''),
       is_alternative = Some (JBool False), alternative_bill_numbers = Some (JList []) \<rparr>"

text \<open>Documents to report: an empty number, and a marked title with the flag false.\<close>

definition doc_empty_number :: document where
  "doc_empty_number =
     \<lparr> title = Some (JStr ''2200789_act''), bill_number = Some (JStr []),
       is_alternative = Some (JBool False), alternative_bill_numbers = Some (JList []) \<rparr>"

definition doc_marked_not_flagged :: document where
  "doc_marked_not_flagged =
     \<lparr> title = Some (JStr (''2200321_act'' @ alt_marker)), bill_number = Some (JStr ''2200321''),
       is_alternative = Some (JBool False), alternative_bill_numbers = Some (JList []) \<rparr>"

text \<open>A marked title with a null flag and a null list, and the same title with the flag 1.\<close>

definition doc_marked_null_flag :: document where
  "doc_marked_null_flag =
     \<lparr> title = Some (JStr (''2200321_act'' @ alt_marker)), bill_number = Some (JStr ''2200321''),
       is_alternative = Some JNull, alternative_bill_numbers = Some JNull \<rparr>"

definition doc_marked_flag_one :: document where
  "doc_marked_flag_one =
     \<lparr> title = Some (JStr (''2200321_act'' @ alt_marker)), bill_number = Some (JStr ''2200321''),
       is_alternative = Some (JInt 1), alternative_bill_numbers = Some JNull \<rparr>"

section \<open>Properties of the lifecycle cell\<close>

subsection \<open>Rounding and rates\<close>

lemma rint_mono: "x \<le> y \<Longrightarrow> rint x \<le> rint y"
proof -
  assume xy: "x \<le> y"
  have fl: "\<lfloor>x\<rfloor> \<le> \<lfloor>y\<rfloor>" using xy by (rule floor_mono)
  show ?thesis
  proof (cases "\<lfloor>x\<rfloor> = \<lfloor>y\<rfloor>")
    case True
    then show ?thesis using xy by (auto simp: rint_def Let_def)
  next
    case False
    then have "\<lfloor>x\<rfloor> + 1 \<le> \<lfloor>y\<rfloor>" using fl by simp
    moreover have "rint x \<le> \<lfloor>x\<rfloor> + 1" by (simp add: rint_def Let_def)
    moreover have "\<lfloor>y\<rfloor> \<le> rint y" by (simp add: rint_def Let_def)
    ultimately show ?thesis by linarith
  qed
qed

lemma np_round_Fin_mono: "x \<le> y \<Longrightarrow> np_le (np_round n (Fin x)) (np_round n (Fin y))"
proof -
  assume xy: "x \<le> y"
  have "x * 10 ^ n \<le> y * 10 ^ n" using xy by (simp add: mult_right_mono)
  then have "rint (x * 10 ^ n) \<le> rint (y * 10 ^ n)" by (rule rint_mono)
  then have "rat_of_int (rint (x * 10 ^ n)) / 10 ^ n \<le> rat_of_int (rint (y * 10 ^ n)) / 10 ^ n"
    by (simp add: divide_right_mono)
  then show ?thesis by simp
qed

lemma truediv_mono:
  assumes "a \<le> b" "0 < t"
  shows "\<exists>x y. np_truediv a t = Fin x \<and> np_truediv b t = Fin y \<and> x \<le> y"
  using assms by (simp add: np_truediv_def divide_right_mono)

lemma rate_mono: "a \<le> b \<Longrightarrow> 0 < t \<Longrightarrow> np_le (rate a t) (rate b t)"
proof -
  assume ab: "a \<le> b" and t: "0 < t"
  obtain x y where
    "np_truediv (int a) (int t) = Fin x" "np_truediv (int b) (int t) = Fin y" "x \<le> y"
    using truediv_mono [of "int a" "int b" "int t"] ab t by auto
  then show ?thesis unfolding rate_def using np_round_Fin_mono [of x y 3] by simp
qed

lemma rate_zero_total: "rate 0 0 = NaN"
  by (simp add: rate_def np_truediv_def)

lemma rate_half: "rate (Suc 0) (Suc (Suc 0)) = Fin (1 / 2)"
  by (simp add: rate_def np_truediv_def rint_def)

lemma rate_none: "rate 0 (Suc 0) = Fin 0"
  by (simp add: rate_def np_truediv_def rint_def)

lemma rate_all: "rate (Suc 0) (Suc 0) = Fin 1"
  by (simp add: rate_def np_truediv_def rint_def)

lemma reached_mono:
  "(\<And>d. d \<in> set ds \<Longrightarrow> p d \<noteq> - 1 \<Longrightarrow> q d \<noteq> - 1) \<Longrightarrow> reached p ds \<le> reached q ds"
proof (induction ds)
  case Nil
  then show ?case by (simp add: reached_def)
next
  case (Cons d ds)
  then have "reached p ds \<le> reached q ds" by simp
  moreover have "p d \<noteq> - 1 \<Longrightarrow> q d \<noteq> - 1" using Cons.prems by simp
  ultimately show ?case by (auto simp: reached_def)
qed

subsection \<open>Gaps\<close>

lemma gap_absent: "a = None \<or> b = None \<Longrightarrow> gap a b = - 1"
  by (auto simp: gap_def dt_minus_def dt_days_def fillna_int_def split: option.splits)

lemma gap_present: "gap (Some x) (Some y) = (x - y) div ns_per_day"
  by (simp add: gap_def dt_minus_def dt_days_def fillna_int_def)

lemma gap_ordered_nonneg: "y \<le> x \<Longrightarrow> 0 \<le> gap (Some x) (Some y)"
  by (simp add: gap_present ns_per_day_def)

lemma gap_mono_span:
  "y' \<le> y \<Longrightarrow> x \<le> x' \<Longrightarrow> gap (Some x) (Some y) \<le> gap (Some x') (Some y')"
  by (simp add: gap_present ns_per_day_def zdiv_mono1)

lemma gap_days_apart: "gap (Some (m * ns_per_day)) (Some (n * ns_per_day)) = m - n"
proof -
  have "m * ns_per_day - n * ns_per_day = (m - n) * ns_per_day"
    by (simp add: left_diff_distrib)
  then show ?thesis by (simp add: gap_present ns_per_day_def)
qed

lemma in_duration_table:
  "b \<in> set bill_details \<Longrightarrow> not_withdrawn b \<Longrightarrow>
     gap_columns (convert_dates parse b) \<in> set (duration_table parse bill_details)"
  by (force simp: duration_table_def not_withdrawn_def convert_dates_def)

subsection \<open>The parser on the dates of the concrete rows\<close>

lemmas parse_iso_defs =
  parse_iso_date_def digit_def days_in_month_def is_leap_def days_from_civil_def

lemma parse_0601: "parse_iso_date ''2024-06-01'' = Some (19875 * ns_per_day)"
  by (simp add: parse_iso_defs)

lemma parse_0602: "parse_iso_date ''2024-06-02'' = Some (19876 * ns_per_day)"
  by (simp add: parse_iso_defs)

lemma parse_0603: "parse_iso_date ''2024-06-03'' = Some (19877 * ns_per_day)"
  by (simp add: parse_iso_defs)

lemma parse_0605: "parse_iso_date ''2024-06-05'' = Some (19879 * ns_per_day)"
  by (simp add: parse_iso_defs)

lemma parse_0606: "parse_iso_date ''2024-06-06'' = Some (19880 * ns_per_day)"
  by (simp add: parse_iso_defs)

lemma parse_0608: "parse_iso_date ''2024-06-08'' = Some (19882 * ns_per_day)"
  by (simp add: parse_iso_defs)

lemma parse_0610: "parse_iso_date ''2024-06-10'' = Some (19884 * ns_per_day)"
  by (simp add: parse_iso_defs)

lemma parse_0611: "parse_iso_date ''2024-06-11'' = Some (19885 * ns_per_day)"
  by (simp add: parse_iso_defs)

lemmas parse_june =
  parse_0601 parse_0602 parse_0603 parse_0605 parse_0606 parse_0608 parse_0610 parse_0611

lemma convert_bill_full:
  "convert_dates parse_iso_date bill_full =
     \<lparr> PROC_RESULT = Some passed_original,
       COMMITTEE_DT = Some (19875 * ns_per_day),
       CMT_PRESENT_DT = Some (19877 * ns_per_day),
       CMT_PROC_DT = Some (19879 * ns_per_day),
       LAW_SUBMIT_DT = Some (19880 * ns_per_day),
       LAW_PRESENT_DT = Some (19882 * ns_per_day),
       LAW_PROC_DT = Some (19884 * ns_per_day),
       PROC_DT = Some (19885 * ns_per_day) \<rparr>"
  by (simp add: convert_dates_def bill_full_def to_datetime_def parse_june)

lemma convert_bill_presented_early:
  "convert_dates parse_iso_date bill_presented_early =
     \<lparr> PROC_RESULT = Some passed_original,
       COMMITTEE_DT = Some (19877 * ns_per_day),
       CMT_PRESENT_DT = Some (19876 * ns_per_day),
       CMT_PROC_DT = Some (19879 * ns_per_day),
       LAW_SUBMIT_DT = Some (19880 * ns_per_day),
       LAW_PRESENT_DT = Some (19882 * ns_per_day),
       LAW_PROC_DT = Some (19884 * ns_per_day),
       PROC_DT = Some (19885 * ns_per_day) \<rparr>"
  by (simp add: convert_dates_def bill_presented_early_def to_datetime_def parse_june)

lemma convert_bill_stalled:
  "convert_dates parse_iso_date bill_stalled =
     \<lparr> PROC_RESULT = None,
       COMMITTEE_DT = Some (19875 * ns_per_day),
       CMT_PRESENT_DT = None, CMT_PROC_DT = None, LAW_SUBMIT_DT = None,
       LAW_PRESENT_DT = None, LAW_PROC_DT = None, PROC_DT = None \<rparr>"
  by (simp add: convert_dates_def bill_stalled_def to_datetime_def parse_june)

lemma convert_bill_withdrawn:
  "convert_dates parse_iso_date bill_withdrawn =
     \<lparr> PROC_RESULT = Some withdrawn,
       COMMITTEE_DT = Some (19875 * ns_per_day),
       CMT_PRESENT_DT = None, CMT_PROC_DT = None, LAW_SUBMIT_DT = None,
       LAW_PRESENT_DT = None, LAW_PROC_DT = None, PROC_DT = None \<rparr>"
  by (simp add: convert_dates_def bill_withdrawn_def to_datetime_def parse_june)

lemma gaps_bill_full:
  "gap_columns (convert_dates parse_iso_date bill_full) =
     \<lparr> CMT_MEET = 2, CMT_PROC = 2, LAW_U = 1, LAW_MEET = 2, LAW_PROC = 2, PROC = 1,
       TOTAL_DT = 10 \<rparr>"
  by (simp add: convert_bill_full gap_columns_def gap_days_apart)

lemma gaps_bill_presented_early:
  "gap_columns (convert_dates parse_iso_date bill_presented_early) =
     \<lparr> CMT_MEET = - 1, CMT_PROC = 3, LAW_U = 1, LAW_MEET = 2, LAW_PROC = 2, PROC = 1,
       TOTAL_DT = 8 \<rparr>"
  by (simp add: convert_bill_presented_early gap_columns_def gap_days_apart)

lemma gaps_bill_stalled:
  "gap_columns (convert_dates parse_iso_date bill_stalled) =
     \<lparr> CMT_MEET = - 1, CMT_PROC = - 1, LAW_U = - 1, LAW_MEET = - 1, LAW_PROC = - 1,
       PROC = - 1, TOTAL_DT = - 1 \<rparr>"
  by (simp add: convert_bill_stalled gap_columns_def gap_absent)

lemma withdrawn_neq_passed: "passed_original \<noteq> withdrawn"
  by (simp add: passed_original_def withdrawn_def)

lemma table_synthetic:
  "duration_table parse_iso_date [bill_full, bill_stalled, bill_withdrawn] =
     [gap_columns (convert_dates parse_iso_date bill_full),
      gap_columns (convert_dates parse_iso_date bill_stalled)]"
  by (simp add: duration_table_def not_withdrawn_def convert_bill_full convert_bill_stalled
      convert_bill_withdrawn withdrawn_neq_passed)

subsection \<open>Empty population\<close>

lemma filter_convert_dates:
  "filter not_withdrawn (map (convert_dates parse) bill_details)
     = map (convert_dates parse) (filter not_withdrawn bill_details)"
  by (induction bill_details) (simp_all add: not_withdrawn_def convert_dates_def)

lemma table_all_withdrawn:
  "filter not_withdrawn bill_details = [] \<Longrightarrow> duration_table parse bill_details = []"
  by (simp add: duration_table_def filter_convert_dates)

text \<open>
  C1, as the notebook behaves.  The cell has no guard and raises nothing: when every loaded
  bill is withdrawn the five counters and \<open>total\<close> are all zero, the counters are numpy
  integers, and each rate is \<open>round(0 / 0, 3)\<close>, that is \<open>nan\<close>.  (The population is taken
  non-empty as loaded: a file without any record has no columns to filter on.)
\<close>

theorem stage_conversion_all_withdrawn_nan:
  assumes "bill_details \<noteq> []" and "filter not_withdrawn bill_details = []"
  shows "stage_conversion parse bill_details =
           \<lparr> cmt_meet_rate = NaN, cmt_proc_rate = NaN, law_meet_rate = NaN,
             law_proc_rate = NaN, proc_rate = NaN \<rparr>"
  using table_all_withdrawn [OF assms(2), of parse]
  by (simp add: stage_conversion_def conversion_rates_def reached_def rate_zero_total)

theorem stage_conversion_all_withdrawn_nan_witness:
  "[bill_withdrawn] \<noteq> [] \<and> filter not_withdrawn [bill_withdrawn] = [] \<and>
   stage_conversion parse_iso_date [bill_withdrawn] =
     \<lparr> cmt_meet_rate = NaN, cmt_proc_rate = NaN, law_meet_rate = NaN,
       law_proc_rate = NaN, proc_rate = NaN \<rparr>"
proof -
  have e: "filter not_withdrawn [bill_withdrawn] = []"
    by (simp add: not_withdrawn_def bill_withdrawn_def)
  have n: "[bill_withdrawn] \<noteq> []" by simp
  show ?thesis
    using stage_conversion_all_withdrawn_nan [OF n e, of parse_iso_date] e by simp
qed

text \<open>
  C1 as stated fails: on a population holding one withdrawn bill the aggregator returns, and
  the committee-referral rate it returns is \<open>nan\<close>.
\<close>

theorem stage_conversion_empty_counterexample:
  "cmt_meet_rate (stage_conversion parse_iso_date [bill_withdrawn]) = NaN"
  by (simp add: stage_conversion_def conversion_rates_def duration_table_def
      not_withdrawn_def convert_bill_withdrawn reached_def rate_zero_total)

subsection \<open>The synthetic population of three bills\<close>

lemma all_present_dates:
  assumes "list_all (\<lambda>t. t \<noteq> None) (dates b)"
  obtains t0 t1 t2 t3 t4 t5 t6 where
    "COMMITTEE_DT b = Some t0" "CMT_PRESENT_DT b = Some t1" "CMT_PROC_DT b = Some t2"
    "LAW_SUBMIT_DT b = Some t3" "LAW_PRESENT_DT b = Some t4" "LAW_PROC_DT b = Some t5"
    "PROC_DT b = Some t6"
  using assms by (auto simp: dates_def)

lemma all_present_in_order:
  assumes "COMMITTEE_DT b = Some t0" "CMT_PRESENT_DT b = Some t1" "CMT_PROC_DT b = Some t2"
    "LAW_SUBMIT_DT b = Some t3" "LAW_PRESENT_DT b = Some t4" "LAW_PROC_DT b = Some t5"
    "PROC_DT b = Some t6" and "in_order (dates b)"
  shows "t0 \<le> t1 \<and> t1 \<le> t2 \<and> t2 \<le> t3 \<and> t3 \<le> t4 \<and> t4 \<le> t5 \<and> t5 \<le> t6"
  using assms by (simp add: dates_def in_order_def)

text \<open>
  C2, as the notebook behaves.  Over a fully processed bill whose timestamps are in lifecycle
  order, a bill with only its committee referral date, and a withdrawn bill, the population
  that is counted has two bills.  The committee-referral rate counts the bills whose gap
  \<open>CMT_MEET\<close> is not the sentinel, which needs the committee presentation date as well: it
  is 0.5, as is the final-disposition rate.
\<close>

theorem synthetic_population_rates:
  assumes "not_withdrawn a"
    and "list_all (\<lambda>t. t \<noteq> None) (dates (convert_dates parse a))"
    and "in_order (dates (convert_dates parse a))"
    and "not_withdrawn b"
    and "to_datetime parse (COMMITTEE_DT b) \<noteq> None"
    and "list_all (\<lambda>t. t = None) (tl (dates (convert_dates parse b)))"
    and "PROC_RESULT w = Some withdrawn"
  shows "cmt_meet_rate (stage_conversion parse [a, b, w]) = Fin (1 / 2) \<and>
         proc_rate (stage_conversion parse [a, b, w]) = Fin (1 / 2)"
proof -
  let ?a = "convert_dates parse a" and ?b = "convert_dates parse b"
  obtain t0 t1 t2 t3 t4 t5 t6 where ts:
    "COMMITTEE_DT ?a = Some t0" "CMT_PRESENT_DT ?a = Some t1" "CMT_PROC_DT ?a = Some t2"
    "LAW_SUBMIT_DT ?a = Some t3" "LAW_PRESENT_DT ?a = Some t4" "LAW_PROC_DT ?a = Some t5"
    "PROC_DT ?a = Some t6"
    using all_present_dates [OF assms(2)] by blast
  have ord: "t0 \<le> t1" "t5 \<le> t6"
    using all_present_in_order [OF ts assms(3)] by simp_all
  have a1: "CMT_MEET (gap_columns ?a) \<noteq> - 1"
    using gap_ordered_nonneg [OF ord(1)] ts by (simp add: gap_columns_def)
  have a2: "PROC (gap_columns ?a) \<noteq> - 1"
    using gap_ordered_nonneg [OF ord(2)] ts by (simp add: gap_columns_def)
  have bn: "CMT_PRESENT_DT ?b = None" "PROC_DT ?b = None"
    using assms(6) by (simp_all add: dates_def)
  have b1: "CMT_MEET (gap_columns ?b) = - 1" "PROC (gap_columns ?b) = - 1"
    using bn by (simp_all add: gap_columns_def gap_absent)
  have tab: "duration_table parse [a, b, w] = [gap_columns ?a, gap_columns ?b]"
    using assms(1,4,7) by (simp add: duration_table_def not_withdrawn_def convert_dates_def)
  show ?thesis
    using a1 a2 b1
    by (simp add: stage_conversion_def conversion_rates_def tab reached_def rate_half)
qed

theorem synthetic_population_rates_witness:
  "not_withdrawn bill_full \<and>
   list_all (\<lambda>t. t \<noteq> None) (dates (convert_dates parse_iso_date bill_full)) \<and>
   in_order (dates (convert_dates parse_iso_date bill_full)) \<and>
   TOTAL_DT (gap_columns (convert_dates parse_iso_date bill_full)) = 10 \<and>
   not_withdrawn bill_stalled \<and>
   to_datetime parse_iso_date (COMMITTEE_DT bill_stalled) \<noteq> None \<and>
   list_all (\<lambda>t. t = None) (tl (dates (convert_dates parse_iso_date bill_stalled))) \<and>
   PROC_RESULT bill_withdrawn = Some withdrawn \<and>
   cmt_meet_rate (stage_conversion parse_iso_date [bill_full, bill_stalled, bill_withdrawn])
     = Fin (1 / 2) \<and>
   proc_rate (stage_conversion parse_iso_date [bill_full, bill_stalled, bill_withdrawn])
     = Fin (1 / 2)"
proof -
  have h1: "not_withdrawn bill_full"
    by (simp add: not_withdrawn_def bill_full_def withdrawn_neq_passed)
  have h2: "list_all (\<lambda>t. t \<noteq> None) (dates (convert_dates parse_iso_date bill_full))"
    by (simp add: convert_bill_full dates_def)
  have h3: "in_order (dates (convert_dates parse_iso_date bill_full))"
    by (simp add: convert_bill_full dates_def in_order_def ns_per_day_def)
  have h4: "not_withdrawn bill_stalled"
    by (simp add: not_withdrawn_def bill_stalled_def)
  have h5: "to_datetime parse_iso_date (COMMITTEE_DT bill_stalled) \<noteq> None"
    by (simp add: bill_stalled_def to_datetime_def parse_june)
  have h6: "list_all (\<lambda>t. t = None) (tl (dates (convert_dates parse_iso_date bill_stalled)))"
    by (simp add: convert_bill_stalled dates_def)
  have h7: "PROC_RESULT bill_withdrawn = Some withdrawn"
    by (simp add: bill_withdrawn_def)
  have h8: "TOTAL_DT (gap_columns (convert_dates parse_iso_date bill_full)) = 10"
    by (simp add: gaps_bill_full)
  show ?thesis
    using synthetic_population_rates [OF h1 h2 h3 h4 h5 h6 h7] h1 h2 h3 h4 h5 h6 h7 h8
    by simp
qed

text \<open>
  C2 as stated fails: on the synthetic population the committee-referral conversion is 0.5,
  not 1.
\<close>

theorem synthetic_referral_rate_counterexample:
  "cmt_meet_rate (stage_conversion parse_iso_date [bill_full, bill_stalled, bill_withdrawn])
     \<noteq> Fin 1"
  by (simp add: stage_conversion_def conversion_rates_def table_synthetic gaps_bill_full
      gaps_bill_stalled reached_def rate_half)

subsection \<open>The duration columns of one bill\<close>

lemma gap_characterised:
  "(a = None \<or> c = None \<longrightarrow> gap a c = - 1) \<and>
   (\<forall>x y. a = Some x \<and> c = Some y \<longrightarrow>
      gap a c = (x - y) div ns_per_day \<and> (y \<le> x \<longrightarrow> gap a c \<noteq> - 1))"
  using gap_absent [of a c] gap_present gap_ordered_nonneg by fastforce

lemma gap_columns_endpoints:
  "(col, later, earlier) \<in> set gap_endpoints \<Longrightarrow>
     col (gap_columns (convert_dates parse b))
       = gap (to_datetime parse (later b)) (to_datetime parse (earlier b))"
  by (auto simp: gap_endpoints_def gap_columns_def convert_dates_def)

text \<open>
  C3, as the notebook behaves.  For a bill that is not withdrawn, each of the seven duration
  columns is \<open>- 1\<close> when either endpoint is null or is rejected by the parser (nothing is
  raised), and otherwise the whole days from the earlier to the later endpoint.  A pair of
  endpoints in lifecycle order never yields \<open>- 1\<close>, so for such a pair the sentinel means
  exactly that an endpoint is absent.  The values are integers.
\<close>

theorem gap_columns_sentinel_or_days:
  assumes "b \<in> set bill_details" and "not_withdrawn b"
  shows "gap_columns (convert_dates parse b) \<in> set (duration_table parse bill_details) \<and>
         (\<forall>(col, later, earlier) \<in> set gap_endpoints.
            (to_datetime parse (later b) = None \<or> to_datetime parse (earlier b) = None
               \<longrightarrow> col (gap_columns (convert_dates parse b)) = - 1) \<and>
            (\<forall>x y. to_datetime parse (later b) = Some x \<and> to_datetime parse (earlier b) = Some y
               \<longrightarrow> col (gap_columns (convert_dates parse b)) = (x - y) div ns_per_day \<and>
                   (y \<le> x \<longrightarrow> col (gap_columns (convert_dates parse b)) \<noteq> - 1)))"
proof (intro conjI ballI)
  show "gap_columns (convert_dates parse b) \<in> set (duration_table parse bill_details)"
    using assms by (rule in_duration_table)
next
  fix e :: "(durations \<Rightarrow> int) \<times> (string option bill_detail \<Rightarrow> string option)
              \<times> (string option bill_detail \<Rightarrow> string option)"
  assume mem: "e \<in> set gap_endpoints"
  obtain col later earlier where e: "e = (col, later, earlier)"
    by (cases e) auto
  have eq: "col (gap_columns (convert_dates parse b))
              = gap (to_datetime parse (later b)) (to_datetime parse (earlier b))"
    using mem unfolding e by (rule gap_columns_endpoints)
  show "case e of (col, later, earlier) \<Rightarrow>
            (to_datetime parse (later b) = None \<or> to_datetime parse (earlier b) = None
               \<longrightarrow> col (gap_columns (convert_dates parse b)) = - 1) \<and>
            (\<forall>x y. to_datetime parse (later b) = Some x \<and> to_datetime parse (earlier b) = Some y
               \<longrightarrow> col (gap_columns (convert_dates parse b)) = (x - y) div ns_per_day \<and>
                   (y \<le> x \<longrightarrow> col (gap_columns (convert_dates parse b)) \<noteq> - 1))"
    unfolding e prod.case eq by (rule gap_characterised)
qed

theorem gap_columns_sentinel_or_days_witness:
  "bill_full \<in> set [bill_full] \<and> not_withdrawn bill_full \<and>
   gap_columns (convert_dates parse_iso_date bill_full)
     \<in> set (duration_table parse_iso_date [bill_full]) \<and>
   to_datetime parse_iso_date (CMT_PRESENT_DT bill_full) = Some (19877 * ns_per_day) \<and>
   to_datetime parse_iso_date (COMMITTEE_DT bill_full) = Some (19875 * ns_per_day) \<and>
   CMT_MEET (gap_columns (convert_dates parse_iso_date bill_full))
     = (19877 * ns_per_day - 19875 * ns_per_day) div ns_per_day \<and>
   CMT_MEET (gap_columns (convert_dates parse_iso_date bill_full)) \<noteq> - 1"
proof -
  have h1: "bill_full \<in> set [bill_full]" by simp
  have h2: "not_withdrawn bill_full"
    by (simp add: not_withdrawn_def bill_full_def withdrawn_neq_passed)
  have m: "(CMT_MEET, CMT_PRESENT_DT, COMMITTEE_DT)
             \<in> set (gap_endpoints :: ((durations \<Rightarrow> int) \<times> (string option bill_detail \<Rightarrow> string option)
              \<times> (string option bill_detail \<Rightarrow> string option)) list)"
    by (simp add: gap_endpoints_def)
  have p1: "to_datetime parse_iso_date (CMT_PRESENT_DT bill_full) = Some (19877 * ns_per_day)"
    by (simp add: bill_full_def to_datetime_def parse_june)
  have p2: "to_datetime parse_iso_date (COMMITTEE_DT bill_full) = Some (19875 * ns_per_day)"
    by (simp add: bill_full_def to_datetime_def parse_june)
  have o: "19875 * ns_per_day \<le> 19877 * ns_per_day" by (simp add: ns_per_day_def)
  show ?thesis
    using gap_columns_sentinel_or_days [OF h1 h2, of parse_iso_date] m h2 p1 p2 o
    by fastforce
qed

text \<open>
  C3 as stated fails: a gap is \<open>- 1\<close> also when both endpoints are present and the later
  milestone is dated the day before the earlier one.
\<close>

theorem sentinel_with_both_endpoints_counterexample:
  "not_withdrawn bill_presented_early \<and>
   to_datetime parse_iso_date (CMT_PRESENT_DT bill_presented_early) \<noteq> None \<and>
   to_datetime parse_iso_date (COMMITTEE_DT bill_presented_early) \<noteq> None \<and>
   CMT_MEET (gap_columns (convert_dates parse_iso_date bill_presented_early)) = - 1"
  by (simp add: not_withdrawn_def bill_presented_early_def withdrawn_neq_passed
      to_datetime_def parse_june gaps_bill_presented_early [unfolded bill_presented_early_def])


subsection \<open>Monotonicity of the conversion rates\<close>

lemma gap_ordered_ne: "y \<le> x \<Longrightarrow> gap (Some x) (Some y) \<noteq> - 1"
  using gap_ordered_nonneg [of y x] by simp

lemma gap_reached_present: "gap a c \<noteq> - 1 \<Longrightarrow> a \<noteq> None \<and> c \<noteq> None"
  by (cases a; cases c) (simp_all add: gap_absent)

lemma milestones_chain:
  assumes "prefix_present [o0, o1, o2, o3, o4, o5, o6]"
    and "in_order [o0, o1, o2, o3, o4, o5, o6]"
  shows "(gap o2 o1 \<noteq> - 1 \<longrightarrow> gap o1 o0 \<noteq> - 1) \<and>
         (gap o4 o3 \<noteq> - 1 \<longrightarrow> gap o2 o1 \<noteq> - 1) \<and>
         (gap o5 o4 \<noteq> - 1 \<longrightarrow> gap o4 o3 \<noteq> - 1) \<and>
         (gap o6 o5 \<noteq> - 1 \<longrightarrow> gap o5 o4 \<noteq> - 1)"
proof (intro conjI impI)
  assume "gap o2 o1 \<noteq> - 1"
  then obtain t1 t2 where "o1 = Some t1" "o2 = Some t2"
    using gap_reached_present by blast
  then show "gap o1 o0 \<noteq> - 1"
    using assms by (cases o0) (simp_all add: in_order_def gap_ordered_ne)
next
  assume "gap o4 o3 \<noteq> - 1"
  then obtain t3 t4 where "o3 = Some t3" "o4 = Some t4"
    using gap_reached_present by blast
  then show "gap o2 o1 \<noteq> - 1"
    using assms by (cases o0; cases o1; cases o2) (simp_all add: in_order_def gap_ordered_ne)
next
  assume "gap o5 o4 \<noteq> - 1"
  then obtain t4 t5 where "o4 = Some t4" "o5 = Some t5"
    using gap_reached_present by blast
  then show "gap o4 o3 \<noteq> - 1"
    using assms by (cases o0; cases o1; cases o2; cases o3) (simp_all add: in_order_def gap_ordered_ne)
next
  assume "gap o6 o5 \<noteq> - 1"
  then obtain t5 t6 where "o5 = Some t5" "o6 = Some t6"
    using gap_reached_present by blast
  then show "gap o5 o4 \<noteq> - 1"
    using assms by (cases o0; cases o1; cases o2; cases o3; cases o4) (simp_all add: in_order_def gap_ordered_ne)
qed

lemma row_chain:
  assumes "prefix_present (dates b)" and "in_order (dates b)"
  shows "(CMT_PROC (gap_columns b) \<noteq> - 1 \<longrightarrow> CMT_MEET (gap_columns b) \<noteq> - 1) \<and>
         (LAW_MEET (gap_columns b) \<noteq> - 1 \<longrightarrow> CMT_PROC (gap_columns b) \<noteq> - 1) \<and>
         (LAW_PROC (gap_columns b) \<noteq> - 1 \<longrightarrow> LAW_MEET (gap_columns b) \<noteq> - 1) \<and>
         (PROC (gap_columns b) \<noteq> - 1 \<longrightarrow> LAW_PROC (gap_columns b) \<noteq> - 1)"
  using milestones_chain [OF assms [unfolded dates_def]] by (simp add: gap_columns_def)

lemma duration_table_rows:
  "d \<in> set (duration_table parse bill_details) \<Longrightarrow>
     \<exists>b \<in> set bill_details. not_withdrawn b \<and> d = gap_columns (convert_dates parse b)"
  by (auto simp: duration_table_def not_withdrawn_def convert_dates_def)

text \<open>
  C4, as the notebook behaves.  When some bill is not withdrawn, and every bill that is not
  withdrawn has a milestone timestamp only if it has all prior ones and has its timestamps in
  lifecycle order, the five rates are non-increasing in milestone order.
\<close>

theorem conversion_rates_nonincreasing:
  assumes "filter not_withdrawn bill_details \<noteq> []"
    and "\<forall>b \<in> set bill_details. not_withdrawn b \<longrightarrow>
           prefix_present (dates (convert_dates parse b)) \<and>
           in_order (dates (convert_dates parse b))"
  shows "np_le (cmt_proc_rate (stage_conversion parse bill_details))
               (cmt_meet_rate (stage_conversion parse bill_details)) \<and>
         np_le (law_meet_rate (stage_conversion parse bill_details))
               (cmt_proc_rate (stage_conversion parse bill_details)) \<and>
         np_le (law_proc_rate (stage_conversion parse bill_details))
               (law_meet_rate (stage_conversion parse bill_details)) \<and>
         np_le (proc_rate (stage_conversion parse bill_details))
               (law_proc_rate (stage_conversion parse bill_details))"
proof -
  let ?ds = "duration_table parse bill_details"
  have len: "0 < length ?ds"
    using assms(1) by (simp add: duration_table_def filter_convert_dates)
  have row: "(CMT_PROC d \<noteq> - 1 \<longrightarrow> CMT_MEET d \<noteq> - 1) \<and>
         (LAW_MEET d \<noteq> - 1 \<longrightarrow> CMT_PROC d \<noteq> - 1) \<and>
         (LAW_PROC d \<noteq> - 1 \<longrightarrow> LAW_MEET d \<noteq> - 1) \<and>
         (PROC d \<noteq> - 1 \<longrightarrow> LAW_PROC d \<noteq> - 1)" if dmem: "d \<in> set ?ds" for d
  proof -
    obtain b where b: "b \<in> set bill_details" "not_withdrawn b"
      "d = gap_columns (convert_dates parse b)"
      using duration_table_rows [OF dmem] by blast
    then show ?thesis using assms(2) row_chain [of "convert_dates parse b"] by blast
  qed
  have c1: "reached CMT_PROC ?ds \<le> reached CMT_MEET ?ds"
    by (rule reached_mono) (use row in blast)
  have c2: "reached LAW_MEET ?ds \<le> reached CMT_PROC ?ds"
    by (rule reached_mono) (use row in blast)
  have c3: "reached LAW_PROC ?ds \<le> reached LAW_MEET ?ds"
    by (rule reached_mono) (use row in blast)
  have c4: "reached PROC ?ds \<le> reached LAW_PROC ?ds"
    by (rule reached_mono) (use row in blast)
  show ?thesis
    using rate_mono [OF c1 len] rate_mono [OF c2 len] rate_mono [OF c3 len] rate_mono [OF c4 len]
    by (simp add: stage_conversion_def conversion_rates_def Let_def)
qed


theorem conversion_rates_nonincreasing_witness:
  "filter not_withdrawn [bill_full, bill_stalled, bill_withdrawn] \<noteq> [] \<and>
   prefix_present (dates (convert_dates parse_iso_date bill_full)) \<and>
   in_order (dates (convert_dates parse_iso_date bill_full)) \<and>
   prefix_present (dates (convert_dates parse_iso_date bill_stalled)) \<and>
   in_order (dates (convert_dates parse_iso_date bill_stalled)) \<and>
   \<not> not_withdrawn bill_withdrawn \<and>
   np_le (cmt_proc_rate (stage_conversion parse_iso_date [bill_full, bill_stalled, bill_withdrawn]))
         (cmt_meet_rate (stage_conversion parse_iso_date [bill_full, bill_stalled, bill_withdrawn])) \<and>
   np_le (law_meet_rate (stage_conversion parse_iso_date [bill_full, bill_stalled, bill_withdrawn]))
         (cmt_proc_rate (stage_conversion parse_iso_date [bill_full, bill_stalled, bill_withdrawn])) \<and>
   np_le (law_proc_rate (stage_conversion parse_iso_date [bill_full, bill_stalled, bill_withdrawn]))
         (law_meet_rate (stage_conversion parse_iso_date [bill_full, bill_stalled, bill_withdrawn])) \<and>
   np_le (proc_rate (stage_conversion parse_iso_date [bill_full, bill_stalled, bill_withdrawn]))
         (law_proc_rate (stage_conversion parse_iso_date [bill_full, bill_stalled, bill_withdrawn]))"
proof -
  have h1: "filter not_withdrawn [bill_full, bill_stalled, bill_withdrawn] \<noteq> []"
    by (simp add: not_withdrawn_def bill_full_def withdrawn_neq_passed)
  have w: "\<not> not_withdrawn bill_withdrawn"
    by (simp add: not_withdrawn_def bill_withdrawn_def)
  have f: "prefix_present (dates (convert_dates parse_iso_date bill_full)) \<and>
           in_order (dates (convert_dates parse_iso_date bill_full))"
    by (simp add: convert_bill_full dates_def in_order_def ns_per_day_def)
  have s: "prefix_present (dates (convert_dates parse_iso_date bill_stalled)) \<and>
           in_order (dates (convert_dates parse_iso_date bill_stalled))"
    by (simp add: convert_bill_stalled dates_def in_order_def)
  have h2: "\<forall>b \<in> set [bill_full, bill_stalled, bill_withdrawn]. not_withdrawn b \<longrightarrow>
      prefix_present (dates (convert_dates parse_iso_date b)) \<and>
      in_order (dates (convert_dates parse_iso_date b))"
    using w f s by simp
  show ?thesis
    using conversion_rates_nonincreasing [OF h1 h2] h1 w f s by blast
qed

text \<open>
  C4 as stated fails twice.  A bill with all seven timestamps, so with every milestone
  preceded by the prior ones, whose committee presentation is dated the day before its
  referral has \<open>CMT_MEET = - 1\<close>: it is counted for the committee-disposition rate and not
  for the committee-referral rate.  And when no bill is left after the withdrawn ones are
  removed all rates are \<open>nan\<close>, which compares false.
\<close>

theorem conversion_rates_order_counterexample:
  "not_withdrawn bill_presented_early \<and>
   prefix_present (dates (convert_dates parse_iso_date bill_presented_early)) \<and>
   \<not> np_le (cmt_proc_rate (stage_conversion parse_iso_date [bill_presented_early]))
           (cmt_meet_rate (stage_conversion parse_iso_date [bill_presented_early])) \<and>
   \<not> np_le (cmt_proc_rate (stage_conversion parse_iso_date [bill_withdrawn]))
           (cmt_meet_rate (stage_conversion parse_iso_date [bill_withdrawn]))"
proof -
  have n: "not_withdrawn bill_presented_early"
    by (simp add: not_withdrawn_def bill_presented_early_def withdrawn_neq_passed)
  have p: "prefix_present (dates (convert_dates parse_iso_date bill_presented_early))"
    by (simp add: convert_bill_presented_early dates_def)
  have t: "duration_table parse_iso_date [bill_presented_early]
             = [gap_columns (convert_dates parse_iso_date bill_presented_early)]"
    using n by (simp add: duration_table_def not_withdrawn_def convert_dates_def)
  have r: "\<not> np_le (cmt_proc_rate (stage_conversion parse_iso_date [bill_presented_early]))
           (cmt_meet_rate (stage_conversion parse_iso_date [bill_presented_early]))"
    by (simp add: stage_conversion_def conversion_rates_def t gaps_bill_presented_early
        reached_def rate_none rate_all)
  have e: "\<not> np_le (cmt_proc_rate (stage_conversion parse_iso_date [bill_withdrawn]))
           (cmt_meet_rate (stage_conversion parse_iso_date [bill_withdrawn]))"
    by (simp add: stage_conversion_def conversion_rates_def duration_table_def
        not_withdrawn_def convert_bill_withdrawn reached_def rate_zero_total)
  show ?thesis using n p r e by simp
qed

subsection \<open>Total span\<close>

text \<open>
  C6.  For a bill that is not withdrawn, with all seven timestamps present and non-decreasing
  in lifecycle order, the total span is at least each of the six gaps.
\<close>

theorem total_span_dominates_gaps:
  assumes "b \<in> set bill_details" and "not_withdrawn b"
    and "list_all (\<lambda>t. t \<noteq> None) (dates (convert_dates parse b))"
    and "in_order (dates (convert_dates parse b))"
  shows "gap_columns (convert_dates parse b) \<in> set (duration_table parse bill_details) \<and>
         (\<forall>col \<in> set [CMT_MEET, CMT_PROC, LAW_U, LAW_MEET, LAW_PROC, PROC].
            col (gap_columns (convert_dates parse b))
              \<le> TOTAL_DT (gap_columns (convert_dates parse b)))"
proof -
  let ?b = "convert_dates parse b"
  obtain t0 t1 t2 t3 t4 t5 t6 where ts:
    "COMMITTEE_DT ?b = Some t0" "CMT_PRESENT_DT ?b = Some t1" "CMT_PROC_DT ?b = Some t2"
    "LAW_SUBMIT_DT ?b = Some t3" "LAW_PRESENT_DT ?b = Some t4" "LAW_PROC_DT ?b = Some t5"
    "PROC_DT ?b = Some t6"
    using all_present_dates [OF assms(3)] by blast
  have ord: "t0 \<le> t1" "t1 \<le> t2" "t2 \<le> t3" "t3 \<le> t4" "t4 \<le> t5" "t5 \<le> t6"
    using all_present_in_order [OF ts assms(4)] by simp_all
  have "gap (Some t1) (Some t0) \<le> gap (Some t6) (Some t0)"
    using ord by (intro gap_mono_span) simp_all
  moreover have "gap (Some t2) (Some t1) \<le> gap (Some t6) (Some t0)"
    using ord by (intro gap_mono_span) simp_all
  moreover have "gap (Some t3) (Some t2) \<le> gap (Some t6) (Some t0)"
    using ord by (intro gap_mono_span) simp_all
  moreover have "gap (Some t4) (Some t3) \<le> gap (Some t6) (Some t0)"
    using ord by (intro gap_mono_span) simp_all
  moreover have "gap (Some t5) (Some t4) \<le> gap (Some t6) (Some t0)"
    using ord by (intro gap_mono_span) simp_all
  moreover have "gap (Some t6) (Some t5) \<le> gap (Some t6) (Some t0)"
    using ord by (intro gap_mono_span) simp_all
  ultimately show ?thesis
    using in_duration_table [OF assms(1,2), of parse] ts by (simp add: gap_columns_def)
qed

theorem total_span_dominates_gaps_witness:
  "bill_full \<in> set [bill_full, bill_stalled] \<and> not_withdrawn bill_full \<and>
   list_all (\<lambda>t. t \<noteq> None) (dates (convert_dates parse_iso_date bill_full)) \<and>
   in_order (dates (convert_dates parse_iso_date bill_full)) \<and>
   gap_columns (convert_dates parse_iso_date bill_full)
     \<in> set (duration_table parse_iso_date [bill_full, bill_stalled]) \<and>
   CMT_MEET (gap_columns (convert_dates parse_iso_date bill_full))
     \<le> TOTAL_DT (gap_columns (convert_dates parse_iso_date bill_full)) \<and>
   CMT_PROC (gap_columns (convert_dates parse_iso_date bill_full))
     \<le> TOTAL_DT (gap_columns (convert_dates parse_iso_date bill_full)) \<and>
   LAW_U (gap_columns (convert_dates parse_iso_date bill_full))
     \<le> TOTAL_DT (gap_columns (convert_dates parse_iso_date bill_full)) \<and>
   LAW_MEET (gap_columns (convert_dates parse_iso_date bill_full))
     \<le> TOTAL_DT (gap_columns (convert_dates parse_iso_date bill_full)) \<and>
   LAW_PROC (gap_columns (convert_dates parse_iso_date bill_full))
     \<le> TOTAL_DT (gap_columns (convert_dates parse_iso_date bill_full)) \<and>
   PROC (gap_columns (convert_dates parse_iso_date bill_full))
     \<le> TOTAL_DT (gap_columns (convert_dates parse_iso_date bill_full))"
proof -
  have h1: "bill_full \<in> set [bill_full, bill_stalled]" by simp
  have h2: "not_withdrawn bill_full"
    by (simp add: not_withdrawn_def bill_full_def withdrawn_neq_passed)
  have h3: "list_all (\<lambda>t. t \<noteq> None) (dates (convert_dates parse_iso_date bill_full))"
    by (simp add: convert_bill_full dates_def)
  have h4: "in_order (dates (convert_dates parse_iso_date bill_full))"
    by (simp add: convert_bill_full dates_def in_order_def ns_per_day_def)
  show ?thesis
    using total_span_dominates_gaps [OF h1 h2 h3 h4] h1 h2 h3 h4 by simp
qed

section \<open>Properties of the committee, party and co-sponsorship tables\<close>

subsection \<open>Pass rate and finalize rate\<close>

lemma status_count_subset:
  "set xs \<subseteq> set ys \<Longrightarrow> status_count xs g \<le> status_count ys g"
proof (induction g)
  case Nil
  then show ?case by (simp add: status_count_def)
next
  case (Cons b g)
  then show ?case by (auto simp: status_count_def)
qed

lemma np_round_truediv_mono:
  assumes "a \<le> b" "0 < t"
  shows "np_le (np_round n (np_truediv a t)) (np_round n (np_truediv b t))"
proof -
  obtain x y where "np_truediv a t = Fin x" "np_truediv b t = Fin y" "x \<le> y"
    using truediv_mono [OF assms] by auto
  then show ?thesis using np_round_Fin_mono [of x y n] by simp
qed

lemma group_stat_rates:
  assumes "0 < BILL_COUNT (group_stat k g)"
  shows "PASS_COUNT (group_stat k g) \<le> NEW_BILL_COUNT (group_stat k g) \<and>
         np_le (PASS_RATE (group_stat k g)) (PROCESSED_RATE (group_stat k g))"
proof -
  let ?p = "status_count [passed_original, passed_amended] g"
  let ?n = "status_count [passed_original, passed_amended, amendment_reflected, alternative_reflected] g"
  have le: "?p \<le> ?n" by (rule status_count_subset) auto
  have pos: "0 < int (length g)" using assms by (simp add: group_stat_def Let_def)
  have "np_le (np_round 2 (np_truediv (int ?p) (int (length g))))
              (np_round 2 (np_truediv (int ?n) (int (length g))))"
    using le pos by (intro np_round_truediv_mono) simp_all
  then show ?thesis using le by (simp add: group_stat_def Let_def)
qed

text \<open>
  C5.  In every group with a positive bill count the pass rate, \<open>round(pass_count /
  bill_count, 2)\<close>, is at most the finalize rate, \<open>round(finalized_count / bill_count, 2)\<close>:
  the accepted labels are among the resolved labels, so the pass count is at most the
  finalized count, and division by the same positive count and rounding are monotone.  The
  statement is for grouping by any key column; the notebook groups by committee,
  \<^term>\<open>committe_stats\<close>.
\<close>

theorem pass_rate_le_processed_rate:
  "\<forall>row \<in> set (groupby_stats key bills).
     0 < BILL_COUNT row \<longrightarrow>
       PASS_RATE row = np_round 2 (np_truediv (int (PASS_COUNT row)) (int (BILL_COUNT row))) \<and>
       PROCESSED_RATE row
         = np_round 2 (np_truediv (int (NEW_BILL_COUNT row)) (int (BILL_COUNT row))) \<and>
       PASS_COUNT row \<le> NEW_BILL_COUNT row \<and>
       np_le (PASS_RATE row) (PROCESSED_RATE row)"
proof (intro ballI impI)
  fix row assume "row \<in> set (groupby_stats key bills)" and pos: "0 < BILL_COUNT row"
  then obtain k g where row: "row = group_stat k g"
    by (auto simp: groupby_stats_def)
  have "PASS_RATE row = np_round 2 (np_truediv (int (PASS_COUNT row)) (int (BILL_COUNT row)))"
    and "PROCESSED_RATE row
         = np_round 2 (np_truediv (int (NEW_BILL_COUNT row)) (int (BILL_COUNT row)))"
    unfolding row by (simp_all add: group_stat_def Let_def)
  then show "PASS_RATE row = np_round 2 (np_truediv (int (PASS_COUNT row)) (int (BILL_COUNT row))) \<and>
       PROCESSED_RATE row
         = np_round 2 (np_truediv (int (NEW_BILL_COUNT row)) (int (BILL_COUNT row))) \<and>
       PASS_COUNT row \<le> NEW_BILL_COUNT row \<and>
       np_le (PASS_RATE row) (PROCESSED_RATE row)"
    using group_stat_rates [of k g] pos unfolding row by blast
qed

lemmas label_defs =
  passed_original_def passed_amended_def amendment_reflected_def alternative_reflected_def
  withdrawn_def

lemma round_one_third: "np_round 2 (np_truediv 1 3) = Fin (33 / 100)"
  by code_simp

lemma round_two_thirds: "np_round 2 (np_truediv 2 3) = Fin (67 / 100)"
  by code_simp

lemma committe_stats_example:
  "committe_stats bills_example =
     [\<lparr> COMMITTEE_NAME_s = ''C'', BILL_COUNT = 3, PASS_COUNT = 1, NEW_BILL_COUNT = 2,
        PASS_RATE = Fin (33 / 100), PROCESSED_RATE = Fin (67 / 100) \<rparr>]"
  by (simp add: committe_stats_def groupby_stats_def group_keys_def group_rows_def
      List.map_filter_def bills_example_def group_stat_def status_count_def label_defs
      round_one_third round_two_thirds Let_def)

theorem pass_rate_le_processed_rate_witness:
  "\<lparr> COMMITTEE_NAME_s = ''C'', BILL_COUNT = 3, PASS_COUNT = 1, NEW_BILL_COUNT = 2,
      PASS_RATE = Fin (33 / 100), PROCESSED_RATE = Fin (67 / 100) \<rparr>
     \<in> set (groupby_stats COMMITTEE_NAME bills_example) \<and>
   committe_stats bills_example = groupby_stats COMMITTEE_NAME bills_example \<and>
   np_le (Fin (33 / 100)) (Fin (67 / 100))"
proof -
  let ?row = "\<lparr> COMMITTEE_NAME_s = ''C'', BILL_COUNT = 3, PASS_COUNT = 1, NEW_BILL_COUNT = 2,
      PASS_RATE = Fin (33 / 100), PROCESSED_RATE = Fin (67 / 100) \<rparr>"
  have m: "?row \<in> set (groupby_stats COMMITTEE_NAME bills_example)"
    using committe_stats_example by (simp add: committe_stats_def)
  have "np_le (PASS_RATE ?row) (PROCESSED_RATE ?row)"
    using pass_rate_le_processed_rate [of COMMITTEE_NAME bills_example] m by fastforce
  then show ?thesis using m by (simp add: committe_stats_def)
qed


subsection \<open>Cross-party co-sponsorship\<close>

lemma set_merge_members:
  "set (merge_members proposers members) =
     {(p, m). p \<in> set proposers \<and> m \<in> set members \<and> PROPOSER_ID p = MONA_CD m}"
  by (auto simp: merge_members_def)

lemma group_party_labels:
  "set (map (\<lambda>r. POLY_NM (snd r))
          (filter (\<lambda>r. BILL_ID (fst r) = k) (merge_members proposers members)))
     = spec_party_labels proposers members k"
  by (force simp: spec_party_labels_def set_merge_members)

lemma length_value_counts: "length (value_counts xs) = card (set xs)"
  by (simp add: value_counts_def length_remdups_card_conv)

lemma bp_bill_ids:
  "bid \<in> set (map BILL_ID (bp proposers members)) \<longleftrightarrow> spec_cross_party proposers members bid"
proof
  assume "bid \<in> set (map BILL_ID (bp proposers members))"
  then obtain r where r: "r \<in> set (bp_grouped proposers members)"
    "1 < length (PROPOSER_POLY_NM r)" "BILL_ID r = bid"
    by (auto simp: bp_def)
  then have "PROPOSER_POLY_NM r = value_counts (map (\<lambda>r. POLY_NM (snd r))
          (filter (\<lambda>r. BILL_ID (fst r) = bid) (merge_members proposers members)))"
    by (auto simp: bp_grouped_def Let_def)
  then show "spec_cross_party proposers members bid"
    using r(2) by (simp add: spec_cross_party_def length_value_counts group_party_labels
        del: set_map)
next
  assume c: "spec_cross_party proposers members bid"
  let ?g = "filter (\<lambda>r. BILL_ID (fst r) = bid) (merge_members proposers members)"
  let ?row = "\<lparr> BILL_ID = bid,
                 PROPOSER_POLY_NM = value_counts (map (\<lambda>r. POLY_NM (snd r)) ?g),
                 PROPOSER_IDS = join '', '' (map (\<lambda>r. PROPOSER_ID (fst r)) ?g) \<rparr>"
  have card: "1 < card (set (map (\<lambda>r. POLY_NM (snd r)) ?g))"
    using c unfolding spec_cross_party_def group_party_labels .
  have "?g \<noteq> []"
  proof
    assume "?g = []"
    then have "card (set (map (\<lambda>r. POLY_NM (snd r)) ?g)) = 0" by simp
    with card show False by linarith
  qed
  then obtain r where "r \<in> set (merge_members proposers members)" "BILL_ID (fst r) = bid"
    by (metis (mono_tags, lifting) filter_False)
  then have key: "bid \<in> set (remdups (map (\<lambda>r. BILL_ID (fst r)) (merge_members proposers members)))"
    by force
  have "?row \<in> set (bp_grouped proposers members)"
    unfolding bp_grouped_def Let_def using key by (simp add: image_iff)
  moreover have "1 < length (PROPOSER_POLY_NM ?row)"
    using card by (simp add: length_value_counts del: set_map)
  ultimately have "?row \<in> set (bp proposers members)" by (simp add: bp_def)
  then have "BILL_ID ?row \<in> BILL_ID ` set (bp proposers members)"
    by (rule imageI)
  then show "bid \<in> set (map BILL_ID (bp proposers members))" by simp
qed

text \<open>
  C7.  A bill identifier is in the filtered table \<open>bp\<close> exactly when the proposers of the
  bill, inner-joined to the members on the member identifier, carry more than one distinct
  party label; and \<open>ana\<close> is exactly the bill rows whose identifier is classified so, in
  their order in \<open>bills\<close>.
\<close>

theorem cross_party_classification:
  "(bid \<in> set (map BILL_ID (bp proposers members))
      \<longleftrightarrow> 1 < card (spec_party_labels proposers members bid)) \<and>
   ana bills proposers members
     = filter (\<lambda>b. 1 < card (spec_party_labels proposers members (BILL_ID b))) bills"
proof -
  have "ana bills proposers members
     = filter (\<lambda>b. spec_cross_party proposers members (BILL_ID b)) bills"
    unfolding ana_def using bp_bill_ids by (intro filter_cong) auto
  then show ?thesis using bp_bill_ids [of bid proposers members]
    by (simp add: spec_cross_party_def)
qed

lemma merged_example:
  "merge_members proposers_example members_example =
     [(\<lparr> BILL_ID = ''B1'', PROPOSER_ID = ''M1'', PROPOSER_TYPE = lead_sponsor \<rparr>,
       \<lparr> MONA_CD = ''M1'', POLY_NM = ''P'' \<rparr>),
      (\<lparr> BILL_ID = ''B1'', PROPOSER_ID = ''M2'', PROPOSER_TYPE = ''co'' \<rparr>,
       \<lparr> MONA_CD = ''M2'', POLY_NM = ''Q'' \<rparr>),
      (\<lparr> BILL_ID = ''B2'', PROPOSER_ID = ''M1'', PROPOSER_TYPE = lead_sponsor \<rparr>,
       \<lparr> MONA_CD = ''M1'', POLY_NM = ''P'' \<rparr>)]"
  by (simp add: merge_members_def proposers_example_def members_example_def)

lemma bp_example:
  "bp proposers_example members_example =
     [\<lparr> BILL_ID = ''B1'', PROPOSER_POLY_NM = [(''P'', 1), (''Q'', 1)],
        PROPOSER_IDS = ''M1, M2'' \<rparr>]"
  by (simp add: bp_def bp_grouped_def merged_example value_counts_def Let_def)

theorem cross_party_classification_witness:
  "''B1'' \<in> set (map BILL_ID (bp proposers_example members_example)) \<and>
   1 < card (spec_party_labels proposers_example members_example ''B1'') \<and>
   ''B2'' \<notin> set (map BILL_ID (bp proposers_example members_example)) \<and>
   \<not> 1 < card (spec_party_labels proposers_example members_example ''B2'') \<and>
   ana bills_example proposers_example members_example
     = [\<lparr> BILL_ID = ''B1'', BILL_NAME = ''N1'', COMMITTEE_NAME = Some ''C'',
          STATUS = passed_original \<rparr>]"
proof -
  have b1: "''B1'' \<in> set (map BILL_ID (bp proposers_example members_example))"
    and b2: "''B2'' \<notin> set (map BILL_ID (bp proposers_example members_example))"
    by (simp_all add: bp_example)
  have a: "ana bills_example proposers_example members_example
     = [\<lparr> BILL_ID = ''B1'', BILL_NAME = ''N1'', COMMITTEE_NAME = Some ''C'',
          STATUS = passed_original \<rparr>]"
    by (simp add: ana_def bp_example bills_example_def)
  show ?thesis
    using cross_party_classification [of "''B1''" proposers_example members_example bills_example]
      cross_party_classification [of "''B2''" proposers_example members_example bills_example]
      b1 b2 a
    by blast
qed


subsection \<open>Per-capita productivity\<close>

lemma member_ratio_keys:
  "map POLY_NM_r (member_ratio members) = remdups (map POLY_NM members)"
  by (simp add: member_ratio_def member_counts_def Let_def o_def)

lemma filter_distinct_key:
  assumes "distinct ks" and "\<And>x. key (f x) = x"
  shows "filter (\<lambda>h. key h = k) (map f ks) = (if k \<in> set ks then [f k] else [])"
  using assms(1)
proof (induction ks)
  case Nil
  then show ?case by simp
next
  case (Cons a ks)
  then show ?case using assms(2) by auto
qed

lemma member_ratio_lookup:
  "filter (\<lambda>h. POLY_NM_r h = k) (member_ratio members) =
     (if k \<in> POLY_NM ` set members
      then [\<lparr> POLY_NM_r = k,
               MEMBER_COUNT = length (filter (\<lambda>m. POLY_NM m = k) members),
               MEMBER_RATIO = np_round 2 (np_truediv
                  (int (length (filter (\<lambda>m. POLY_NM m = k) members)))
                  (int (sum_list (map snd (member_counts members))))) \<rparr>]
      else [])"
proof -
  let ?s = "sum_list (map snd (member_counts members))"
  let ?f = "\<lambda>k. \<lparr> POLY_NM_r = k,
               MEMBER_COUNT = length (filter (\<lambda>m. POLY_NM m = k) members),
               MEMBER_RATIO = np_round 2 (np_truediv
                  (int (length (filter (\<lambda>m. POLY_NM m = k) members))) (int ?s)) \<rparr>"
  have "member_ratio members = map ?f (remdups (map POLY_NM members))"
    by (simp add: member_ratio_def member_counts_def Let_def o_def)
  then show ?thesis
    using filter_distinct_key [where f = ?f and key = POLY_NM_r
        and ks = "remdups (map POLY_NM members)" and k = k]
    by simp
qed

lemma member_count_positive:
  "k \<in> POLY_NM ` set members \<Longrightarrow> 0 < length (filter (\<lambda>m. POLY_NM m = k) members)"
  by (auto simp: filter_empty_conv)

text \<open>
  C8.  Every row of the per-capita table has the number of lead-sponsored rows of its party
  as bill count.  When the party has an entry in the head count table, the ratio is the
  exact quotient of the bill count by the number of members of the party; when it has none,
  the member count is missing and the ratio is the missing value \<open>nan\<close>: nothing is raised
  and no default of one member is used.
\<close>

theorem per_capita_ratio:
  "\<forall>row \<in> set (party_ratio lead (member_ratio members)).
     BILL_COUNT_d row = length (filter (\<lambda>(p, m, b). POLY_NM m = POLY_NM_d row) lead) \<and>
     (if POLY_NM_d row \<in> set (map POLY_NM_r (member_ratio members))
      then MEMBER_COUNT_d row
             = Some (length (filter (\<lambda>m. POLY_NM m = POLY_NM_d row) members)) \<and>
           RATIO row
             = Fin (rat_of_nat (BILL_COUNT_d row)
                    / rat_of_nat (length (filter (\<lambda>m. POLY_NM m = POLY_NM_d row) members)))
      else MEMBER_COUNT_d row = None \<and> RATIO row = NaN)"
proof
  fix row assume "row \<in> set (party_ratio lead (member_ratio members))"
  then obtain k n c where knc: "(k, n, c) \<in> set (merge_left (bill_counts lead) (member_ratio members))"
    and row: "row = \<lparr> POLY_NM_d = k, BILL_COUNT_d = n, MEMBER_COUNT_d = c, RATIO = column_div n c \<rparr>"
    by (auto simp: party_ratio_def)
  let ?ms = "filter (\<lambda>m. POLY_NM m = k) members"
  have n: "n = length (filter (\<lambda>(p, m, b). POLY_NM m = k) lead)"
    and c: "c = (if k \<in> POLY_NM ` set members then Some (length ?ms) else None)"
    using knc by (auto simp: merge_left_def bill_counts_def member_ratio_lookup split: if_splits)
  have keys: "set (map POLY_NM_r (member_ratio members)) = POLY_NM ` set members"
    by (simp add: member_ratio_keys)
  show "BILL_COUNT_d row = length (filter (\<lambda>(p, m, b). POLY_NM m = POLY_NM_d row) lead) \<and>
     (if POLY_NM_d row \<in> set (map POLY_NM_r (member_ratio members))
      then MEMBER_COUNT_d row
             = Some (length (filter (\<lambda>m. POLY_NM m = POLY_NM_d row) members)) \<and>
           RATIO row
             = Fin (rat_of_nat (BILL_COUNT_d row)
                    / rat_of_nat (length (filter (\<lambda>m. POLY_NM m = POLY_NM_d row) members)))
      else MEMBER_COUNT_d row = None \<and> RATIO row = NaN)"
  proof (cases "k \<in> POLY_NM ` set members")
    case True
    then have "0 < length ?ms" by (rule member_count_positive)
    then show ?thesis
      unfolding keys using True n c by (simp add: row column_div_def np_truediv_def)
  next
    case False
    then show ?thesis
      unfolding keys using n c by (simp add: row column_div_def)
  qed
qed

lemma member_ratio_ten:
  "member_ratio ten_members = [\<lparr> POLY_NM_r = ''P'', MEMBER_COUNT = 10, MEMBER_RATIO = Fin 1 \<rparr>]"
  by (simp add: member_ratio_def member_counts_def ten_members_def Let_def np_truediv_def
      rint_def)

lemma party_ratio_example:
  "party_ratio lead_example (member_ratio ten_members) =
     [\<lparr> POLY_NM_d = ''P'', BILL_COUNT_d = 7, MEMBER_COUNT_d = Some 10, RATIO = Fin (7 / 10) \<rparr>,
      \<lparr> POLY_NM_d = ''Q'', BILL_COUNT_d = 1, MEMBER_COUNT_d = None, RATIO = NaN \<rparr>]"
  by (simp add: member_ratio_ten party_ratio_def merge_left_def bill_counts_def
      lead_example_def lead_row_def column_div_def np_truediv_def)

theorem per_capita_ratio_witness:
  "\<lparr> POLY_NM_d = ''P'', BILL_COUNT_d = 7, MEMBER_COUNT_d = Some 10, RATIO = Fin (7 / 10) \<rparr>
     \<in> set (party_ratio lead_example (member_ratio ten_members)) \<and>
   ''P'' \<in> set (map POLY_NM_r (member_ratio ten_members)) \<and>
   length (filter (\<lambda>(p, m, b). POLY_NM m = ''P'') lead_example) = 7 \<and>
   length (filter (\<lambda>m. POLY_NM m = ''P'') ten_members) = 10 \<and>
   \<lparr> POLY_NM_d = ''Q'', BILL_COUNT_d = 1, MEMBER_COUNT_d = None, RATIO = NaN \<rparr>
     \<in> set (party_ratio lead_example (member_ratio ten_members)) \<and>
   ''Q'' \<notin> set (map POLY_NM_r (member_ratio ten_members))"
proof -
  let ?p = "\<lparr> POLY_NM_d = ''P'', BILL_COUNT_d = 7, MEMBER_COUNT_d = Some 10,
               RATIO = Fin (7 / 10) \<rparr>"
  let ?q = "\<lparr> POLY_NM_d = ''Q'', BILL_COUNT_d = 1, MEMBER_COUNT_d = None, RATIO = NaN \<rparr>"
  have p: "?p \<in> set (party_ratio lead_example (member_ratio ten_members))"
    and q: "?q \<in> set (party_ratio lead_example (member_ratio ten_members))"
    by (simp_all add: party_ratio_example)
  have kp: "''P'' \<in> set (map POLY_NM_r (member_ratio ten_members))"
    and kq: "''Q'' \<notin> set (map POLY_NM_r (member_ratio ten_members))"
    by (simp_all add: member_ratio_ten)
  have "BILL_COUNT_d ?p = length (filter (\<lambda>(p, m, b). POLY_NM m = POLY_NM_d ?p) lead_example)"
    and "MEMBER_COUNT_d ?p = Some (length (filter (\<lambda>m. POLY_NM m = POLY_NM_d ?p) ten_members))"
    using per_capita_ratio [THEN bspec, OF p] kp by simp_all
  then show ?thesis using p q kp kq by simp
qed


section \<open>Properties of the validation loop\<close>

lemma contains_iff: "contains sub s \<longleftrightarrow> (\<exists>pre post. s = pre @ sub @ post)"
proof (induction s)
  case Nil
  then show ?case by auto
next
  case (Cons c cs)
  show ?case
  proof
    assume "contains sub (c # cs)"
    then consider "take (length sub) (c # cs) = sub" | "contains sub cs" by auto
    then show "\<exists>pre post. c # cs = pre @ sub @ post"
    proof cases
      case 1
      then have "c # cs = [] @ sub @ drop (length sub) (c # cs)"
        by (metis append_Nil append_take_drop_id)
      then show ?thesis by blast
    next
      case 2
      then obtain pre post where "cs = pre @ sub @ post" using Cons.IH by blast
      then have "c # cs = (c # pre) @ sub @ post" by simp
      then show ?thesis by blast
    qed
  next
    assume "\<exists>pre post. c # cs = pre @ sub @ post"
    then obtain pre post where e: "c # cs = pre @ sub @ post" by blast
    show "contains sub (c # cs)"
    proof (cases pre)
      case Nil
      then have "take (length sub) (c # cs) = sub" using e by simp
      then show ?thesis by simp
    next
      case (Cons a pre')
      then have "cs = pre' @ sub @ post" using e by simp
      then have "contains sub cs" using Cons.IH by blast
      then show ?thesis by simp
    qed
  qed
qed

lemma endswith_iff: "endswith s suffix \<longleftrightarrow> (\<exists>pre. s = pre @ suffix)"
proof
  assume "endswith s suffix"
  then have "s = take (length s - length suffix) s @ suffix"
    by (metis append_take_drop_id endswith_def)
  then show "\<exists>pre. s = pre @ suffix" by blast
next
  assume "\<exists>pre. s = pre @ suffix"
  then show "endswith s suffix" by (auto simp: endswith_def)
qed

lemma reportable_check: "reportable data \<Longrightarrow> \<exists>e. check fname data = Inl e"
  by (auto simp: reportable_def check_def Let_def split: option.splits json.splits)

lemma validate_from_append:
  "validate_from st (xs @ ys) = validate_from (validate_from st xs) ys"
  by (induction xs arbitrary: st) simp_all

lemma step_errors_prefix:
  "step f (a, pre @ es) = (fst (step f (a, es)), pre @ snd (step f (a, es)))"
  by (simp add: step_def split: sum.splits option.splits prod.splits)

lemma validate_from_errors_prefix:
  "validate_from (a, pre @ es) fs =
     (fst (validate_from (a, es) fs), pre @ snd (validate_from (a, es) fs))"
proof (induction fs arbitrary: a es)
  case Nil
  then show ?case by simp
next
  case (Cons f fs)
  obtain a' es' where s: "step f (a, es) = (a', es')" by (cases "step f (a, es)")
  have "step f (a, pre @ es) = (a', pre @ es')"
    using step_errors_prefix [of f a pre es] s by simp
  then show ?case using Cons.IH [of a' es'] s by simp
qed

text \<open>
  C9.  A document in a \<open>.json\<close> file with an empty number or title, a title prefix that does
  not end with its number, or a marked title with a flag that is not true, makes the loop body
  raise;
  the loop appends that error at the document's position in the error list, stores nothing
  for it in \<open>alter2\<close>, and goes on: the dict and the other entries of the error list are
  those of the batch without the document.
\<close>

theorem invalid_record_reported_batch_continues:
  assumes "endswith fname ''.json''" and "reportable data"
  shows "\<exists>e. check fname data = Inl e \<and>
           fst (validate_all (before @ (fname, data) # after))
             = fst (validate_all (before @ after)) \<and>
           snd (validate_all (before @ (fname, data) # after))
             = take (length (snd (validate_all before))) (snd (validate_all (before @ after)))
               @ [e]
               @ drop (length (snd (validate_all before))) (snd (validate_all (before @ after)))"
proof -
  obtain e where e: "check fname data = Inl e"
    using reportable_check [OF assms(2)] by blast
  obtain a es where st: "validate_all before = (a, es)" by (cases "validate_all before")
  have stp: "step (fname, data) (a, es) = (a, es @ [e])"
    using assms(1) e by (simp add: step_def)
  obtain a' es' where r: "validate_from (a, []) after = (a', es')"
    by (cases "validate_from (a, []) after")
  have with_r: "validate_all (before @ (fname, data) # after) = (a', es @ [e] @ es')"
    using validate_from_errors_prefix [of a "es @ [e]" "[]" after] st stp r
    by (simp add: validate_all_def validate_from_append)
  have without: "validate_all (before @ after) = (a', es @ es')"
    using validate_from_errors_prefix [of a es "[]" after] st r
    by (simp add: validate_all_def validate_from_append)
  show ?thesis using e st with_r without by simp
qed

lemma check_empty_number:
  "check ''b.json'' doc_empty_number = Inl (MissingFields ''b.json'')"
  by (simp add: check_def doc_empty_number_def)

lemma check_plain: "check ''a.json'' doc_plain = Inr None"
  by (simp add: check_def doc_plain_def split_first_def endswith_def alt_marker_def)

lemma check_unmarked_alternative:
  "check ''c.json'' doc_unmarked_alternative
     = Inr (Some (''2200123'', JList [JStr ''2200001'', JStr ''2200002'']))"
  by (simp add: check_def doc_unmarked_alternative_def split_first_def endswith_def)

lemma check_marked_not_flagged:
  "check ''d.json'' doc_marked_not_flagged = Inl (NotMarkedAlternative ''d.json'')"
  by (simp add: check_def doc_marked_not_flagged_def split_first_def endswith_def alt_marker_def)

lemma json_names:
  "endswith ''a.json'' ''.json''" "endswith ''b.json'' ''.json''"
  "endswith ''c.json'' ''.json''" "endswith ''d.json'' ''.json''"
  by (simp_all add: endswith_def)

theorem invalid_record_reported_batch_continues_witness:
  "endswith ''b.json'' ''.json'' \<and> reportable doc_empty_number \<and>
   check ''b.json'' doc_empty_number = Inl (MissingFields ''b.json'') \<and>
   snd (validate_all ([(''a.json'', doc_plain)] @ (''b.json'', doc_empty_number)
          # [(''c.json'', doc_unmarked_alternative), (''d.json'', doc_marked_not_flagged)]))
     = [MissingFields ''b.json'', NotMarkedAlternative ''d.json''] \<and>
   snd (validate_all ([(''a.json'', doc_plain)]
          @ [(''c.json'', doc_unmarked_alternative), (''d.json'', doc_marked_not_flagged)]))
     = [NotMarkedAlternative ''d.json''] \<and>
   fst (validate_all ([(''a.json'', doc_plain)] @ (''b.json'', doc_empty_number)
          # [(''c.json'', doc_unmarked_alternative), (''d.json'', doc_marked_not_flagged)]))
     = fst (validate_all ([(''a.json'', doc_plain)]
          @ [(''c.json'', doc_unmarked_alternative), (''d.json'', doc_marked_not_flagged)]))"
proof -
  have h1: "endswith ''b.json'' ''.json''" by (rule json_names)
  have h2: "reportable doc_empty_number"
    by (simp add: reportable_def doc_empty_number_def)
  have e1: "snd (validate_all ([(''a.json'', doc_plain)] @ (''b.json'', doc_empty_number)
          # [(''c.json'', doc_unmarked_alternative), (''d.json'', doc_marked_not_flagged)]))
     = [MissingFields ''b.json'', NotMarkedAlternative ''d.json'']"
    by (simp add: validate_all_def step_def json_names check_plain check_empty_number
        check_unmarked_alternative check_marked_not_flagged)
  have e2: "snd (validate_all ([(''a.json'', doc_plain)]
          @ [(''c.json'', doc_unmarked_alternative), (''d.json'', doc_marked_not_flagged)]))
     = [NotMarkedAlternative ''d.json'']"
    by (simp add: validate_all_def step_def json_names check_plain
        check_unmarked_alternative check_marked_not_flagged)
  show ?thesis
    using invalid_record_reported_batch_continues [OF h1 h2, of "[(''a.json'', doc_plain)]"
        "[(''c.json'', doc_unmarked_alternative), (''d.json'', doc_marked_not_flagged)]"]
      h1 h2 e1 e2 check_empty_number
    by blast
qed

text \<open>
  C10.  The consistency of title and flag is checked in one direction.  The flag is read by
  its truth value.  A document whose flag is true is accepted, with its entry stored, once
  its number and title are non-empty strings that match, whether or not its title carries the
  marker.  The loop reports the inconsistency only for a document whose flag is there and is
  not true and whose title carries the marker, and does report it for such a document once
  its number and title are non-empty strings that match.
\<close>

theorem alternative_flag_checked_one_way:
  "(title data = Some (JStr t) \<and> t \<noteq> [] \<and> bill_number data = Some (JStr n) \<and> n \<noteq> [] \<and>
    endswith (split_first t) n \<and> is_alternative data = Some flag \<and> truthy flag \<and>
    alternative_bill_numbers data = Some a
      \<longrightarrow> check fname data = Inr (Some (split_first t, a))) \<and>
   (check fname data = Inl (NotMarkedAlternative f)
      \<longrightarrow> (\<exists>v. is_alternative data = Some v \<and> \<not> truthy v) \<and>
          (\<exists>s. title data = Some (JStr s) \<and> contains alt_marker s)) \<and>
   (title data = Some (JStr t) \<and> t \<noteq> [] \<and> bill_number data = Some (JStr n) \<and> n \<noteq> [] \<and>
    endswith (split_first t) n \<and> is_alternative data = Some flag \<and> \<not> truthy flag \<and>
    contains alt_marker t
      \<longrightarrow> check fname data = Inl (NotMarkedAlternative fname))"
proof (intro conjI impI)
  assume "title data = Some (JStr t) \<and> t \<noteq> [] \<and> bill_number data = Some (JStr n) \<and> n \<noteq> [] \<and>
    endswith (split_first t) n \<and> is_alternative data = Some flag \<and> truthy flag \<and>
    alternative_bill_numbers data = Some a"
  then show "check fname data = Inr (Some (split_first t, a))"
    by (simp add: check_def)
next
  assume raised: "check fname data = Inl (NotMarkedAlternative f)"
  then obtain s m where sm: "title data = Some (JStr s)" "bill_number data = Some (JStr m)"
    by (auto simp: check_def Let_def split: option.splits json.splits if_splits)
  have passed: "\<not> (bill_number data = Some (JStr []) \<or> title data = Some (JStr []))"
    "endswith (split_first s) m"
    using raised sm by (auto simp: check_def Let_def split: if_splits)
  show "\<exists>v. is_alternative data = Some v \<and> \<not> truthy v"
  proof (cases "is_alternative data")
    case None
    then show ?thesis using raised sm passed by (simp add: check_def)
  next
    case (Some v)
    then show ?thesis using raised sm passed
      by (cases "truthy v") (simp_all add: check_def split: option.splits)
  qed
  show "\<exists>s. title data = Some (JStr s) \<and> contains alt_marker s"
  proof (cases "is_alternative data")
    case None
    then show ?thesis using raised sm passed by (simp add: check_def)
  next
    case (Some v)
    then show ?thesis using raised sm passed
      by (cases "truthy v") (simp_all add: check_def split: option.splits if_splits)
  qed
next
  assume "title data = Some (JStr t) \<and> t \<noteq> [] \<and> bill_number data = Some (JStr n) \<and> n \<noteq> [] \<and>
    endswith (split_first t) n \<and> is_alternative data = Some flag \<and> \<not> truthy flag \<and>
    contains alt_marker t"
  then show "check fname data = Inl (NotMarkedAlternative fname)"
    by (simp add: check_def)
qed

theorem alternative_flag_checked_one_way_witness:
  "is_alternative doc_unmarked_alternative = Some (JBool True) \<and>
   title doc_unmarked_alternative = Some (JStr ''2200123_act'') \<and>
   \<not> contains alt_marker ''2200123_act'' \<and>
   check ''c.json'' doc_unmarked_alternative
     = Inr (Some (''2200123'', JList [JStr ''2200001'', JStr ''2200002''])) \<and>
   is_alternative doc_marked_not_flagged = Some (JBool False) \<and>
   contains alt_marker (''2200321_act'' @ alt_marker) \<and>
   check ''d.json'' doc_marked_not_flagged = Inl (NotMarkedAlternative ''d.json'') \<and>
   is_alternative doc_marked_null_flag = Some JNull \<and>
   check ''e.json'' doc_marked_null_flag = Inl (NotMarkedAlternative ''e.json'') \<and>
   is_alternative doc_marked_flag_one = Some (JInt 1) \<and>
   check ''f.json'' doc_marked_flag_one = Inr (Some (''2200321'', JNull))"
proof -
  have t: "title doc_unmarked_alternative = Some (JStr ''2200123_act'')"
    "bill_number doc_unmarked_alternative = Some (JStr ''2200123'')"
    "is_alternative doc_unmarked_alternative = Some (JBool True)"
    "alternative_bill_numbers doc_unmarked_alternative
       = Some (JList [JStr ''2200001'', JStr ''2200002''])"
    by (simp_all add: doc_unmarked_alternative_def)
  have p: "endswith (split_first ''2200123_act'') ''2200123''"
    "split_first ''2200123_act'' = ''2200123''"
    by (simp_all add: split_first_def endswith_def)
  have nc: "\<not> contains alt_marker ''2200123_act''"
    by (simp add: alt_marker_def)
  have c1: "check ''c.json'' doc_unmarked_alternative
     = Inr (Some (''2200123'', JList [JStr ''2200001'', JStr ''2200002'']))"
    using alternative_flag_checked_one_way [of doc_unmarked_alternative "''2200123_act''"
        "''2200123''" "JBool True" "JList [JStr ''2200001'', JStr ''2200002'']" "''c.json''"] t p
    by simp
  have q: "endswith (split_first (''2200321_act'' @ alt_marker)) ''2200321''"
    "split_first (''2200321_act'' @ alt_marker) = ''2200321''"
    by (simp_all add: split_first_def endswith_def alt_marker_def)
  have c: "contains alt_marker (''2200321_act'' @ alt_marker)"
    by (simp add: alt_marker_def)
  have ne: "''2200321_act'' @ alt_marker \<noteq> []" by simp
  have u: "title doc_marked_not_flagged = Some (JStr (''2200321_act'' @ alt_marker))"
    "bill_number doc_marked_not_flagged = Some (JStr ''2200321'')"
    "is_alternative doc_marked_not_flagged = Some (JBool False)"
    by (simp_all add: doc_marked_not_flagged_def)
  have c2: "check ''d.json'' doc_marked_not_flagged = Inl (NotMarkedAlternative ''d.json'')"
    using alternative_flag_checked_one_way [of doc_marked_not_flagged
        "''2200321_act'' @ alt_marker" "''2200321''" "JBool False" _ "''d.json''"] u q c ne
    by simp
  have v: "title doc_marked_null_flag = Some (JStr (''2200321_act'' @ alt_marker))"
    "bill_number doc_marked_null_flag = Some (JStr ''2200321'')"
    "is_alternative doc_marked_null_flag = Some JNull"
    by (simp_all add: doc_marked_null_flag_def)
  have c3: "check ''e.json'' doc_marked_null_flag = Inl (NotMarkedAlternative ''e.json'')"
    using alternative_flag_checked_one_way [of doc_marked_null_flag
        "''2200321_act'' @ alt_marker" "''2200321''" JNull _ "''e.json''"] v q c ne
    by simp
  have w: "title doc_marked_flag_one = Some (JStr (''2200321_act'' @ alt_marker))"
    "bill_number doc_marked_flag_one = Some (JStr ''2200321'')"
    "is_alternative doc_marked_flag_one = Some (JInt 1)"
    "alternative_bill_numbers doc_marked_flag_one = Some JNull"
    by (simp_all add: doc_marked_flag_one_def)
  have c4: "check ''f.json'' doc_marked_flag_one = Inr (Some (''2200321'', JNull))"
    using alternative_flag_checked_one_way [of doc_marked_flag_one
        "''2200321_act'' @ alt_marker" "''2200321''" "JInt 1" JNull "''f.json''"] w q ne
    by simp
  show ?thesis using t(1,3) nc c1 u(3) c c2 v(3) c3 w(3) c4 by simp
qed

end
